theory Spec2Isabelle
  imports Complex_Main "HOL-Library.Word"
begin

section \<open>Python values\<close>

text \<open>
  The server is \<^verbatim>\<open>web_server.py\<close>: a \<^verbatim>\<open>BaseHTTPRequestHandler\<close> with the methods
  \<^verbatim>\<open>do_GET\<close>, \<^verbatim>\<open>do_POST\<close>, \<^verbatim>\<open>serve_file\<close>, \<^verbatim>\<open>handle_enhance_request\<close>,
  \<^verbatim>\<open>run_realesrgan\<close> and \<^verbatim>\<open>send_json_response\<close>. Each method is a HOL function of
  the same name over explicit values of what the Python reads and changes.

  A Python \<^verbatim>\<open>str\<close> is a \<open>string\<close> holding its UTF-8 encoding: the operations the
  handler applies to text (membership of and splitting at \<^verbatim>\<open>','\<close>, splitting at
  \<^verbatim>\<open>'/'\<close>, dropping a leading \<^verbatim>\<open>'/'\<close>, concatenation) act on ASCII characters, whose
  bytes never occur inside a longer UTF-8 sequence. Python \<^verbatim>\<open>bytes\<close> are lists of
  8-bit words.
\<close>

type_synonym byte = "8 word"
type_synonym bytes = "byte list"

subsection \<open>Exceptions\<close>

text \<open>
  An exception is its class and the text \<^verbatim>\<open>str(e)\<close>. Only subclasses of
  \<^verbatim>\<open>Exception\<close> are modelled, so \<^verbatim>\<open>except Exception\<close> and a bare \<^verbatim>\<open>except:\<close> catch
  every value of the type. The handler tells two classes apart:
  \<^verbatim>\<open>json.JSONDecodeError\<close> (line 135) and \<^verbatim>\<open>FileNotFoundError\<close> (line 67).
\<close>

datatype exn_class =
    JSONDecodeError | UnicodeDecodeError | ValueError | TypeError | AttributeError
  | IndexError | BinasciiError | OverflowError | MemoryError
  | FileNotFoundError | FileExistsError | NotADirectoryError | IsADirectoryError
  | PermissionError | OSError

datatype exn = Exn exn_class string

fun exn_class_of :: "exn \<Rightarrow> exn_class" where
  "exn_class_of (Exn c m) = c"

fun py_str :: "exn \<Rightarrow> string" where
  "py_str (Exn c m) = m"

subsection \<open>Values read from JSON\<close>

text \<open>
  What \<^verbatim>\<open>json.loads\<close> returns: \<^verbatim>\<open>None\<close>, a \<^verbatim>\<open>bool\<close>, an \<^verbatim>\<open>int\<close>, a \<^verbatim>\<open>float\<close>,
  a \<^verbatim>\<open>str\<close>, a \<^verbatim>\<open>list\<close> or a \<^verbatim>\<open>dict\<close> with string keys (an association list
  read left to right).
\<close>

datatype pyfloat = Finite real | Infinity bool | NaN

datatype json =
    JNull | JBool bool | JInt int | JFloat pyfloat | JStr string
  | JArr "json list" | JObj "(string \<times> json) list"

fun type_name :: "json \<Rightarrow> string" where
  "type_name JNull = ''NoneType''"
| "type_name (JBool b) = ''bool''"
| "type_name (JInt i) = ''int''"
| "type_name (JFloat f) = ''float''"
| "type_name (JStr s) = ''str''"
| "type_name (JArr xs) = ''list''"
| "type_name (JObj kvs) = ''dict''"

text \<open>Truth value of an object, as \<^verbatim>\<open>not image_data\<close> (line 84) tests it.\<close>

fun truthy :: "json \<Rightarrow> bool" where
  "truthy JNull = False"
| "truthy (JBool b) = b"
| "truthy (JInt i) = (i \<noteq> 0)"
| "truthy (JFloat f) = (f \<noteq> Finite 0)"
| "truthy (JStr s) = (s \<noteq> [])"
| "truthy (JArr xs) = (xs \<noteq> [])"
| "truthy (JObj kvs) = (kvs \<noteq> [])"

definition quoted :: "string \<Rightarrow> string" where
  "quoted s = [CHR 0x27] @ s @ [CHR 0x27]"

definition no_attribute :: "json \<Rightarrow> string \<Rightarrow> exn" where
  "no_attribute v a =
     Exn AttributeError (quoted (type_name v) @ '' object has no attribute '' @ quoted a)"

text \<open>\<^verbatim>\<open>data.get(key)\<close> (line 82): only a \<^verbatim>\<open>dict\<close> has the method.\<close>

fun dict_get :: "json \<Rightarrow> string \<Rightarrow> exn + json" where
  "dict_get (JObj kvs) k = Inr (case map_of kvs k of None \<Rightarrow> JNull | Some v \<Rightarrow> v)"
| "dict_get v k = Inl (no_attribute v ''get'')"

subsection \<open>Strings and lists\<close>

text \<open>\<^verbatim>\<open>s.split(sep)\<close> for a separator of one character: every occurrence splits.\<close>

fun split_acc :: "char \<Rightarrow> string \<Rightarrow> string \<Rightarrow> string list" where
  "split_acc sep acc [] = [rev acc]"
| "split_acc sep acc (c # cs) =
     (if c = sep then rev acc # split_acc sep [] cs else split_acc sep (c # acc) cs)"

definition py_split :: "char \<Rightarrow> string \<Rightarrow> string list" where
  "py_split sep s = split_acc sep [] s"

text \<open>\<^verbatim>\<open>xs[i]\<close> for an index that is not negative; out of range raises.\<close>

definition py_index :: "'a list \<Rightarrow> nat \<Rightarrow> exn + 'a" where
  "py_index xs i =
     (if i < length xs then Inr (xs ! i) else Inl (Exn IndexError ''list index out of range''))"

text \<open>\<^verbatim>\<open>sep.join(xs)\<close>.\<close>

fun py_join :: "string \<Rightarrow> string list \<Rightarrow> string" where
  "py_join sep [] = []"
| "py_join sep [x] = x"
| "py_join sep (x # y # ys) = x @ sep @ py_join sep (y # ys)"

text \<open>The text an f-string gives for a value that is \<^verbatim>\<open>None\<close> or a \<^verbatim>\<open>str\<close>.\<close>

fun py_format :: "string option \<Rightarrow> string" where
  "py_format None = ''None''"
| "py_format (Some s) = s"

subsection \<open>The messages of the source\<close>

text \<open>
  The literals of lines 85, 96, 128, 132, 136, 139, 151 and 174, as their UTF-8 bytes
  (Arabic text; the f-string literals end in a colon and a space).
\<close>

definition msg_no_image :: string where
  "msg_no_image =
     [CHR 0xD9, CHR 0x84, CHR 0xD9, CHR 0x85, CHR 0x20, CHR 0xD9, CHR 0x8A, CHR 0xD8, CHR 0xAA,
      CHR 0xD9, CHR 0x85, CHR 0x20, CHR 0xD8, CHR 0xA7, CHR 0xD9, CHR 0x84, CHR 0xD8, CHR 0xB9,
      CHR 0xD8, CHR 0xAB, CHR 0xD9, CHR 0x88, CHR 0xD8, CHR 0xB1, CHR 0x20, CHR 0xD8, CHR 0xB9,
      CHR 0xD9, CHR 0x84, CHR 0xD9, CHR 0x89, CHR 0x20, CHR 0xD8, CHR 0xA8, CHR 0xD9, CHR 0x8A,
      CHR 0xD8, CHR 0xA7, CHR 0xD9, CHR 0x86, CHR 0xD8, CHR 0xA7, CHR 0xD8, CHR 0xAA, CHR 0x20,
      CHR 0xD8, CHR 0xA7, CHR 0xD9, CHR 0x84, CHR 0xD8, CHR 0xB5, CHR 0xD9, CHR 0x88, CHR 0xD8,
      CHR 0xB1, CHR 0xD8, CHR 0xA9]"

definition msg_decode_failed :: string where
  "msg_decode_failed =
     [CHR 0xD8, CHR 0xAE, CHR 0xD8, CHR 0xB7, CHR 0xD8, CHR 0xA3, CHR 0x20, CHR 0xD9, CHR 0x81,
      CHR 0xD9, CHR 0x8A, CHR 0x20, CHR 0xD9, CHR 0x81, CHR 0xD9, CHR 0x83, CHR 0x20, CHR 0xD8,
      CHR 0xAA, CHR 0xD8, CHR 0xB4, CHR 0xD9, CHR 0x81, CHR 0xD9, CHR 0x8A, CHR 0xD8, CHR 0xB1,
      CHR 0x20, CHR 0xD8, CHR 0xA7, CHR 0xD9, CHR 0x84, CHR 0xD8, CHR 0xB5, CHR 0xD9, CHR 0x88,
      CHR 0xD8, CHR 0xB1, CHR 0xD8, CHR 0xA9, CHR 0x3A, CHR 0x20]"

definition msg_success :: string where
  "msg_success =
     [CHR 0xD8, CHR 0xAA, CHR 0xD9, CHR 0x85, CHR 0x20, CHR 0xD8, CHR 0xAA, CHR 0xD8, CHR 0xAD,
      CHR 0xD8, CHR 0xB3, CHR 0xD9, CHR 0x8A, CHR 0xD9, CHR 0x86, CHR 0x20, CHR 0xD8, CHR 0xA7,
      CHR 0xD9, CHR 0x84, CHR 0xD8, CHR 0xB5, CHR 0xD9, CHR 0x88, CHR 0xD8, CHR 0xB1, CHR 0xD8,
      CHR 0xA9, CHR 0x20, CHR 0xD8, CHR 0xA8, CHR 0xD9, CHR 0x86, CHR 0xD8, CHR 0xAC, CHR 0xD8,
      CHR 0xA7, CHR 0xD8, CHR 0xAD, CHR 0x21]"

definition msg_enhance_failed :: string where
  "msg_enhance_failed =
     [CHR 0xD9, CHR 0x81, CHR 0xD8, CHR 0xB4, CHR 0xD9, CHR 0x84, CHR 0x20, CHR 0xD9, CHR 0x81,
      CHR 0xD9, CHR 0x8A, CHR 0x20, CHR 0xD8, CHR 0xAA, CHR 0xD8, CHR 0xAD, CHR 0xD8, CHR 0xB3,
      CHR 0xD9, CHR 0x8A, CHR 0xD9, CHR 0x86, CHR 0x20, CHR 0xD8, CHR 0xA7, CHR 0xD9, CHR 0x84,
      CHR 0xD8, CHR 0xB5, CHR 0xD9, CHR 0x88, CHR 0xD8, CHR 0xB1, CHR 0xD8, CHR 0xA9, CHR 0x3A,
      CHR 0x20]"

definition msg_invalid_json :: string where
  "msg_invalid_json =
     [CHR 0xD8, CHR 0xA8, CHR 0xD9, CHR 0x8A, CHR 0xD8, CHR 0xA7, CHR 0xD9, CHR 0x86, CHR 0xD8,
      CHR 0xA7, CHR 0xD8, CHR 0xAA, CHR 0x20, CHR 0x4A, CHR 0x53, CHR 0x4F, CHR 0x4E, CHR 0x20,
      CHR 0xD8, CHR 0xBA, CHR 0xD9, CHR 0x8A, CHR 0xD8, CHR 0xB1, CHR 0x20, CHR 0xD8, CHR 0xB5,
      CHR 0xD8, CHR 0xA7, CHR 0xD9, CHR 0x84, CHR 0xD8, CHR 0xAD, CHR 0xD8, CHR 0xA9]"

definition msg_server_error :: string where
  "msg_server_error =
     [CHR 0xD8, CHR 0xAE, CHR 0xD8, CHR 0xB7, CHR 0xD8, CHR 0xA3, CHR 0x20, CHR 0xD9, CHR 0x81,
      CHR 0xD9, CHR 0x8A, CHR 0x20, CHR 0xD8, CHR 0xA7, CHR 0xD9, CHR 0x84, CHR 0xD8, CHR 0xAE,
      CHR 0xD8, CHR 0xA7, CHR 0xD8, CHR 0xAF, CHR 0xD9, CHR 0x85, CHR 0x3A, CHR 0x20]"

definition msg_exe_missing :: string where
  "msg_exe_missing =
     [CHR 0xD9, CHR 0x85, CHR 0xD9, CHR 0x84, CHR 0xD9, CHR 0x81, CHR 0x20, CHR 0x52, CHR 0x65,
      CHR 0x61, CHR 0x6C, CHR 0x2D, CHR 0x45, CHR 0x53, CHR 0x52, CHR 0x47, CHR 0x41, CHR 0x4E,
      CHR 0x20, CHR 0xD8, CHR 0xBA, CHR 0xD9, CHR 0x8A, CHR 0xD8, CHR 0xB1, CHR 0x20, CHR 0xD9,
      CHR 0x85, CHR 0xD9, CHR 0x88, CHR 0xD8, CHR 0xAC, CHR 0xD9, CHR 0x88, CHR 0xD8, CHR 0xAF]"

definition msg_unknown_error :: string where
  "msg_unknown_error =
     [CHR 0xD8, CHR 0xAE, CHR 0xD8, CHR 0xB7, CHR 0xD8, CHR 0xA3, CHR 0x20, CHR 0xD8, CHR 0xBA,
      CHR 0xD9, CHR 0x8A, CHR 0xD8, CHR 0xB1, CHR 0x20, CHR 0xD9, CHR 0x85, CHR 0xD8, CHR 0xB9,
      CHR 0xD8, CHR 0xB1, CHR 0xD9, CHR 0x88, CHR 0xD9, CHR 0x81]"


section \<open>Paths and the file system\<close>

subsection \<open>Paths\<close>

text \<open>
  A \<^verbatim>\<open>pathlib.Path\<close> of the POSIX flavour: whether it is anchored at the root, and its
  parts. Parsing a string drops empty parts and single dots and keeps \<^verbatim>\<open>..\<close>, as pathlib
  does; nothing is resolved against the file system.
\<close>

datatype pypath = PyPath bool "string list"

definition path_parts :: "string \<Rightarrow> string list" where
  "path_parts s = filter (\<lambda>p. p \<noteq> [] \<and> p \<noteq> ''.'') (py_split CHR ''/'' s)"

text \<open>\<^verbatim>\<open>os.path.isabs\<close>.\<close>

definition isabs :: "string \<Rightarrow> bool" where
  "isabs s = (take 1 s = ''/'')"

definition Path :: "string \<Rightarrow> pypath" where
  "Path s = PyPath (isabs s) (path_parts s)"

text \<open>The operator \<^verbatim>\<open>p / s\<close>: an absolute right operand replaces the left one.\<close>

fun truediv :: "pypath \<Rightarrow> string \<Rightarrow> pypath" where
  "truediv (PyPath a ps) s = (if isabs s then Path s else PyPath a (ps @ path_parts s))"

text \<open>\<^verbatim>\<open>str(p)\<close>.\<close>

fun path_str :: "pypath \<Rightarrow> string" where
  "path_str (PyPath True ps) = ''/'' @ py_join ''/'' ps"
| "path_str (PyPath False []) = ''.''"
| "path_str (PyPath False ps) = py_join ''/'' ps"

text \<open>
  \<^verbatim>\<open>os.path.dirname\<close>: the text up to the last slash, without trailing slashes unless it
  consists of slashes only.
\<close>

definition dirname :: "string \<Rightarrow> string" where
  "dirname p =
     (let head = rev (dropWhile (\<lambda>c. c \<noteq> CHR ''/'') (rev p))
      in if head \<noteq> [] \<and> \<not> list_all (\<lambda>c. c = CHR ''/'') head
         then rev (dropWhile (\<lambda>c. c = CHR ''/'') (rev head))
         else head)"

subsection \<open>The file system\<close>

text \<open>
  A tree of plain files and directories, kept as a map from locations (the names from
  the root down) to nodes; no links. \<open>locked\<close> marks the entries the host refuses to
  create, open, replace or remove (missing permission, a file held open by another
  process): such a call raises \<^verbatim>\<open>PermissionError\<close>.
\<close>

datatype node = File bytes | Dir

type_synonym loc = "string list"

record filesystem =
  nodes :: "loc \<Rightarrow> node option"
  locked :: "loc \<Rightarrow> bool"

definition node_at :: "filesystem \<Rightarrow> loc \<Rightarrow> node option" where
  "node_at fs l = (if l = [] then Some Dir else nodes fs l)"

text \<open>
  Path resolution as the kernel does it: every part walked through must be a directory,
  and \<^verbatim>\<open>..\<close> steps to the parent (the root is its own parent). The last part need not
  exist.
\<close>

fun walk :: "filesystem \<Rightarrow> loc \<Rightarrow> string list \<Rightarrow> exn_class + loc" where
  "walk fs cur [] = Inr cur"
| "walk fs cur (c # cs) =
     (case node_at fs cur of
        None \<Rightarrow> Inl FileNotFoundError
      | Some (File b) \<Rightarrow> Inl NotADirectoryError
      | Some Dir \<Rightarrow> walk fs (if c = ''..'' then butlast cur else cur @ [c]) cs)"

definition locate :: "filesystem \<Rightarrow> loc \<Rightarrow> string \<Rightarrow> exn_class + loc" where
  "locate fs cwd s =
     (if s = [] then Inl FileNotFoundError
      else walk fs (if isabs s then [] else cwd) (path_parts s))"

definition os_stat :: "filesystem \<Rightarrow> loc \<Rightarrow> string \<Rightarrow> exn_class + node" where
  "os_stat fs cwd s =
     (case locate fs cwd s of
        Inl c \<Rightarrow> Inl c
      | Inr l \<Rightarrow> (case node_at fs l of None \<Rightarrow> Inl FileNotFoundError | Some n \<Rightarrow> Inr n))"

text \<open>\<^verbatim>\<open>os.path.exists\<close> and \<^verbatim>\<open>os.path.isdir\<close>: a failing \<^verbatim>\<open>stat\<close> is the answer no.\<close>

definition os_exists :: "filesystem \<Rightarrow> loc \<Rightarrow> string \<Rightarrow> bool" where
  "os_exists fs cwd s = (case os_stat fs cwd s of Inl c \<Rightarrow> False | Inr n \<Rightarrow> True)"

definition os_isdir :: "filesystem \<Rightarrow> loc \<Rightarrow> string \<Rightarrow> bool" where
  "os_isdir fs cwd s = (case os_stat fs cwd s of Inr Dir \<Rightarrow> True | _ \<Rightarrow> False)"

definition os_mkdir :: "filesystem \<Rightarrow> loc \<Rightarrow> string \<Rightarrow> exn_class + filesystem" where
  "os_mkdir fs cwd s =
     (case locate fs cwd s of
        Inl c \<Rightarrow> Inl c
      | Inr l \<Rightarrow>
          (case node_at fs l of
             Some n \<Rightarrow> Inl FileExistsError
           | None \<Rightarrow>
               if locked fs l then Inl PermissionError
               else Inr (fs\<lparr>nodes := (nodes fs)(l \<mapsto> Dir)\<rparr>)))"

text \<open>\<^verbatim>\<open>open(s, 'wb')\<close>, \<^verbatim>\<open>f.write(b)\<close> and the close, as one step.\<close>

definition os_write :: "filesystem \<Rightarrow> loc \<Rightarrow> string \<Rightarrow> bytes \<Rightarrow> exn_class + filesystem" where
  "os_write fs cwd s b =
     (case locate fs cwd s of
        Inl c \<Rightarrow> Inl c
      | Inr l \<Rightarrow>
          (case node_at fs l of
             Some Dir \<Rightarrow> Inl IsADirectoryError
           | _ \<Rightarrow>
               if locked fs l then Inl PermissionError
               else Inr (fs\<lparr>nodes := (nodes fs)(l \<mapsto> File b)\<rparr>)))"

text \<open>\<^verbatim>\<open>open(s, 'rb')\<close>, \<^verbatim>\<open>f.read()\<close> and the close, as one step.\<close>

definition os_read :: "filesystem \<Rightarrow> loc \<Rightarrow> string \<Rightarrow> exn_class + bytes" where
  "os_read fs cwd s =
     (case locate fs cwd s of
        Inl c \<Rightarrow> Inl c
      | Inr l \<Rightarrow>
          (case node_at fs l of
             None \<Rightarrow> Inl FileNotFoundError
           | Some Dir \<Rightarrow> Inl IsADirectoryError
           | Some (File b) \<Rightarrow> if locked fs l then Inl PermissionError else Inr b))"

definition os_unlink :: "filesystem \<Rightarrow> loc \<Rightarrow> string \<Rightarrow> exn_class + filesystem" where
  "os_unlink fs cwd s =
     (case locate fs cwd s of
        Inl c \<Rightarrow> Inl c
      | Inr l \<Rightarrow>
          (case node_at fs l of
             None \<Rightarrow> Inl FileNotFoundError
           | Some Dir \<Rightarrow> Inl IsADirectoryError
           | Some (File b) \<Rightarrow>
               if locked fs l then Inl PermissionError
               else Inr (fs\<lparr>nodes := (nodes fs)(l := None)\<rparr>)))"

text \<open>
  \<^verbatim>\<open>os.makedirs(name, exist_ok=True)\<close>, on the parts of \<open>name\<close> in reverse (the last
  part first): create the parent first when it does not exist, passing over a
  \<^verbatim>\<open>FileExistsError\<close> from there; then create the directory itself, passing over any
  \<^verbatim>\<open>OSError\<close> when the directory exists afterwards. The result is the error raised
  (class and file name) and the file system as the call leaves it.
\<close>

fun makedirs_rev ::
  "bool \<Rightarrow> string list \<Rightarrow> loc \<Rightarrow> filesystem \<Rightarrow> (exn_class \<times> string) option \<times> filesystem"
where
  "makedirs_rev a [] cwd fs = (None, fs)"
| "makedirs_rev a (t # rhead) cwd fs =
     (let name = path_str (PyPath a (rev (t # rhead)));
          head = path_str (PyPath a (rev rhead));
          r = (if (a \<or> rhead \<noteq> []) \<and> \<not> os_exists fs cwd head
               then (case makedirs_rev a rhead cwd fs of
                       (Some (FileExistsError, n), fs') \<Rightarrow> (None, fs')
                     | r' \<Rightarrow> r')
               else (None, fs))
      in case r of
           (Some e, fs1) \<Rightarrow> (Some e, fs1)
         | (None, fs1) \<Rightarrow>
             (case os_mkdir fs1 cwd name of
                Inr fs2 \<Rightarrow> (None, fs2)
              | Inl c \<Rightarrow> if os_isdir fs1 cwd name then (None, fs1) else (Some (c, name), fs1)))"

definition os_makedirs ::
  "filesystem \<Rightarrow> loc \<Rightarrow> string \<Rightarrow> (exn_class \<times> string) option \<times> filesystem"
where
  "os_makedirs fs cwd s =
     (if s = [] then (Some (FileNotFoundError, s), fs)
      else makedirs_rev (isabs s) (rev (path_parts s)) cwd fs)"

section \<open>The library, the host and the world\<close>

text \<open>
  Functions of the Python distribution and the external executable are parameters of
  the model, so every theorem holds whatever they answer:
  \<^item> \<open>int_of_str\<close> is \<^verbatim>\<open>int(s)\<close> for a string, \<open>utf8_decode\<close> is
    \<^verbatim>\<open>b.decode('utf-8')\<close>, \<open>json_loads\<close> is \<^verbatim>\<open>json.loads\<close>, \<open>b64decode_str\<close> is
    \<^verbatim>\<open>base64.b64decode\<close> on a string, \<open>urlparse_path\<close> is \<^verbatim>\<open>urlparse(s).path\<close>,
    \<open>guess_type\<close> is the first component of \<^verbatim>\<open>mimetypes.guess_type\<close>;
  \<^item> \<open>strerror\<close> is the text of an \<^verbatim>\<open>OSError\<close> of a class for a file name;
  \<^item> \<open>alloc_error\<close> is what the allocation of a buffer of a given size raises on the
    host (\<^verbatim>\<open>OverflowError\<close> for a byte string that is too large, \<^verbatim>\<open>MemoryError\<close> when
    memory is short), \<open>None\<close> when the buffer is allocated;
  \<^item> \<open>subprocess_run\<close> is \<^verbatim>\<open>subprocess.run(cmd, capture_output=True, text=True, cwd=d)\<close>
    on a file system: it raises, or the program exits with a return code, its output and
    error text, or it never exits (the call has no timeout). Either way the program may
    have changed the file system.
\<close>

datatype run_outcome =
    RunRaises exn filesystem
  | Completed int string string filesystem
  | NeverReturns

record env =
  int_of_str :: "string \<Rightarrow> exn + int"
  utf8_decode :: "bytes \<Rightarrow> exn + string"
  json_loads :: "string \<Rightarrow> exn + json"
  b64decode_str :: "string \<Rightarrow> exn + bytes"
  urlparse_path :: "string \<Rightarrow> string"
  guess_type :: "string \<Rightarrow> string option"
  strerror :: "exn_class \<Rightarrow> string \<Rightarrow> string"
  alloc_error :: "int \<Rightarrow> exn option"
  subprocess_run :: "string list \<Rightarrow> string \<Rightarrow> filesystem \<Rightarrow> run_outcome"

text \<open>
  The world a request runs in: the file system, the working directory of the server,
  the calls made to the file system and to \<^verbatim>\<open>subprocess\<close> so far (whether they succeeded
  or not), and the lines printed.
\<close>

datatype effect =
    Mkdir string
  | Makedirs string
  | Stat string
  | OpenWrite string bytes
  | OpenRead string
  | Unlink string
  | Spawn "string list" string

record world =
  files :: filesystem
  workdir :: loc
  trace :: "effect list"
  console :: "string list"

definition log :: "effect \<Rightarrow> world \<Rightarrow> world" where
  "log e w = w\<lparr>trace := trace w @ [e]\<rparr>"

definition py_print :: "string \<Rightarrow> world \<Rightarrow> world" where
  "py_print s w = w\<lparr>console := console w @ [s]\<rparr>"

definition os_error :: "env \<Rightarrow> exn_class \<Rightarrow> string \<Rightarrow> exn" where
  "os_error env c s = Exn c (strerror env c s)"

text \<open>\<^verbatim>\<open>p.exists()\<close>.\<close>

definition path_exists :: "pypath \<Rightarrow> world \<Rightarrow> bool \<times> world" where
  "path_exists p w =
     (os_exists (files w) (workdir w) (path_str p), log (Stat (path_str p)) w)"

text \<open>
  \<^verbatim>\<open>p.mkdir(exist_ok=True)\<close>: a \<^verbatim>\<open>FileNotFoundError\<close> is raised again; any other
  \<^verbatim>\<open>OSError\<close> is passed over when the path is a directory.
\<close>

definition path_mkdir :: "env \<Rightarrow> pypath \<Rightarrow> world \<Rightarrow> exn option \<times> world" where
  "path_mkdir env p w =
     (let s = path_str p; w1 = log (Mkdir s) w
      in case os_mkdir (files w) (workdir w) s of
           Inr fs' \<Rightarrow> (None, w1\<lparr>files := fs'\<rparr>)
         | Inl c \<Rightarrow>
             if c \<noteq> FileNotFoundError \<and> os_isdir (files w) (workdir w) s then (None, w1)
             else (Some (os_error env c s), w1))"

text \<open>\<^verbatim>\<open>with open(s, 'wb') as f: f.write(b)\<close>.\<close>

definition write_file :: "env \<Rightarrow> string \<Rightarrow> bytes \<Rightarrow> world \<Rightarrow> exn option \<times> world" where
  "write_file env s b w =
     (let w1 = log (OpenWrite s b) w
      in case os_write (files w) (workdir w) s b of
           Inr fs' \<Rightarrow> (None, w1\<lparr>files := fs'\<rparr>)
         | Inl c \<Rightarrow> (Some (os_error env c s), w1))"

text \<open>\<^verbatim>\<open>with open(s, 'rb') as f: content = f.read()\<close>.\<close>

definition read_file :: "env \<Rightarrow> string \<Rightarrow> world \<Rightarrow> (exn + bytes) \<times> world" where
  "read_file env s w =
     (let w1 = log (OpenRead s) w
      in case os_read (files w) (workdir w) s of
           Inr b \<Rightarrow> (Inr b, w1)
         | Inl c \<Rightarrow> (Inl (os_error env c s), w1))"

text \<open>\<^verbatim>\<open>p.unlink()\<close>.\<close>

definition path_unlink :: "env \<Rightarrow> pypath \<Rightarrow> world \<Rightarrow> exn option \<times> world" where
  "path_unlink env p w =
     (let s = path_str p; w1 = log (Unlink s) w
      in case os_unlink (files w) (workdir w) s of
           Inr fs' \<Rightarrow> (None, w1\<lparr>files := fs'\<rparr>)
         | Inl c \<Rightarrow> (Some (os_error env c s), w1))"

text \<open>\<^verbatim>\<open>os.makedirs(s, exist_ok=True)\<close>.\<close>

definition makedirs :: "env \<Rightarrow> string \<Rightarrow> world \<Rightarrow> exn option \<times> world" where
  "makedirs env s w =
     (let w1 = log (Makedirs s) w
      in case os_makedirs (files w) (workdir w) s of
           (None, fs') \<Rightarrow> (None, w1\<lparr>files := fs'\<rparr>)
         | (Some (c, n), fs') \<Rightarrow> (Some (os_error env c n), w1\<lparr>files := fs'\<rparr>))"

text \<open>
  \<^verbatim>\<open>subprocess.run(cmd, capture_output=True, text=True, cwd=d)\<close>; \<open>None\<close> when the
  program never exits.
\<close>

definition run_subprocess ::
  "env \<Rightarrow> string list \<Rightarrow> string \<Rightarrow> world \<Rightarrow> ((exn + int \<times> string \<times> string) \<times> world) option"
where
  "run_subprocess env cmd d w =
     (let w1 = log (Spawn cmd d) w
      in case subprocess_run env cmd d (files w) of
           NeverReturns \<Rightarrow> None
         | RunRaises e fs' \<Rightarrow> Some (Inl e, w1\<lparr>files := fs'\<rparr>)
         | Completed rc out err fs' \<Rightarrow> Some (Inr (rc, out, err), w1\<lparr>files := fs'\<rparr>))"

section \<open>The request handler\<close>

text \<open>
  A request is the request target (\<^verbatim>\<open>self.path\<close>), the headers in the order
  received, and the bytes the client sends as the body before it closes its side.
  A response is what the handler sends: \<^verbatim>\<open>send_json_response(data, status)\<close>, a file
  with its content type, or \<^verbatim>\<open>send_error(code, message)\<close>. Response headers are left
  out, and writing to the socket is taken to succeed.
\<close>

record request =
  req_path :: string
  req_headers :: "(string \<times> string) list"
  rfile :: bytes

datatype response =
    JsonResponse nat json
  | FileResponse string bytes
  | ErrorResponse nat string

fun status_of :: "response \<Rightarrow> nat" where
  "status_of (JsonResponse c d) = c"
| "status_of (FileResponse t b) = 200"
| "status_of (ErrorResponse c m) = c"

definition send_json_response :: "json \<Rightarrow> nat \<Rightarrow> response" where
  "send_json_response data status_code = JsonResponse status_code data"

subsection \<open>Reading the request\<close>

definition ascii_lower :: "char \<Rightarrow> char" where
  "ascii_lower c =
     (let n = (of_char c :: nat) in if 65 \<le> n \<and> n \<le> 90 then char_of (n + 32) else c)"

text \<open>
  \<^verbatim>\<open>self.headers[name]\<close>: the value of the first header of that name, compared without
  case, or \<^verbatim>\<open>None\<close>.
\<close>

definition header_get :: "(string \<times> string) list \<Rightarrow> string \<Rightarrow> string option" where
  "header_get hs name =
     map_of (map (\<lambda>(k, v). (map ascii_lower k, v)) hs) (map ascii_lower name)"

text \<open>\<^verbatim>\<open>int(x)\<close> for \<^verbatim>\<open>None\<close> or a string (line 77).\<close>

definition int_of_none :: exn where
  "int_of_none =
     Exn TypeError
       (''int() argument must be a string, a bytes-like object or a real number, not ''
        @ quoted ''NoneType'')"

fun py_int :: "env \<Rightarrow> string option \<Rightarrow> exn + int" where
  "py_int env None = Inl int_of_none"
| "py_int env (Some s) = int_of_str env s"

text \<open>
  \<^verbatim>\<open>self.rfile.read(n)\<close> on a buffered reader: all bytes of the stream for \<open>-1\<close>; a
  smaller \<open>n\<close> raises; an \<open>n\<close> that does not fit the index type (64 bits) raises; else
  a buffer of \<open>n\<close> bytes is allocated, which may raise, and the result is \<open>n\<close> bytes, or
  fewer when the stream ends first.
\<close>

definition rfile_read :: "env \<Rightarrow> bytes \<Rightarrow> int \<Rightarrow> exn + bytes" where
  "rfile_read env data n =
     (if n < - 1 then Inl (Exn ValueError ''read length must be non-negative or -1'')
      else if n = - 1 then Inr data
      else if 2 ^ 63 \<le> n
      then Inl (Exn OverflowError
             (''cannot fit '' @ quoted ''int'' @ '' into an index-sized integer''))
      else (case alloc_error env n of
              Some e \<Rightarrow> Inl e
            | None \<Rightarrow> Inr (take (nat n) data)))"

subsection \<open>Decoding the image (lines 89 to 94)\<close>

text \<open>\<^verbatim>\<open>',' in image_data\<close>.\<close>

fun contains_comma :: "json \<Rightarrow> exn + bool" where
  "contains_comma (JStr s) = Inr (CHR '','' \<in> set s)"
| "contains_comma (JArr xs) = Inr (JStr '','' \<in> set xs)"
| "contains_comma (JObj kvs) = Inr ('','' \<in> fst ` set kvs)"
| "contains_comma v =
     Inl (Exn TypeError (''argument of type '' @ quoted (type_name v) @ '' is not iterable''))"

text \<open>\<^verbatim>\<open>image_data.split(',')[1]\<close>.\<close>

fun split_second :: "json \<Rightarrow> exn + json" where
  "split_second (JStr s) =
     (case py_index (py_split CHR '','' s) 1 of Inl e \<Rightarrow> Inl e | Inr p \<Rightarrow> Inr (JStr p))"
| "split_second v = Inl (no_attribute v ''split'')"

text \<open>\<^verbatim>\<open>base64.b64decode(image_data)\<close>.\<close>

fun b64decode :: "env \<Rightarrow> json \<Rightarrow> exn + bytes" where
  "b64decode env (JStr s) = b64decode_str env s"
| "b64decode env v =
     Inl (Exn TypeError
       (''argument should be a bytes-like object or ASCII string, not '' @ quoted (type_name v)))"

text \<open>Lines 91 and 92: the value handed to the decoder.\<close>

definition decoder_input :: "json \<Rightarrow> exn + json" where
  "decoder_input image_data =
     (case contains_comma image_data of
        Inl e \<Rightarrow> Inl e
      | Inr c \<Rightarrow> if c then split_second image_data else Inr image_data)"

text \<open>Lines 91 to 94: the body of the inner \<^verbatim>\<open>try\<close>.\<close>

definition decode_image :: "env \<Rightarrow> json \<Rightarrow> exn + bytes" where
  "decode_image env image_data =
     (case decoder_input image_data of
        Inl e \<Rightarrow> Inl e
      | Inr payload \<Rightarrow> b64decode env payload)"

subsection \<open>The Process Invoker\<close>

definition exe_name :: string where
  "exe_name = ''realesrgan-ncnn-vulkan.exe''"

text \<open>The command of lines 153 to 160.\<close>

definition realesrgan_cmd :: "pypath \<Rightarrow> string \<Rightarrow> string \<Rightarrow> string list" where
  "realesrgan_cmd base_path input_path output_path =
     [path_str (truediv base_path exe_name),
      ''-i'', input_path,
      ''-o'', output_path,
      ''-n'', ''realesrgan-x4plus'',
      ''-t'', ''256'',
      ''-j'', ''1:1:1'']"

text \<open>
  \<^verbatim>\<open>run_realesrgan(input_path, output_path)\<close> returns the pair \<^verbatim>\<open>(success, error_msg)\<close>;
  the result is \<open>None\<close> when the program never exits.
\<close>

definition run_realesrgan ::
  "env \<Rightarrow> pypath \<Rightarrow> string \<Rightarrow> string \<Rightarrow> world \<Rightarrow> ((bool \<times> string option) \<times> world) option"
where
  "run_realesrgan env base_path input_path output_path w =
     (case makedirs env (dirname output_path) w of
        (Some e, w1) \<Rightarrow>
          Some ((False, Some (py_str e)),
                py_print (''Exception in run_realesrgan: '' @ py_str e) w1)
      | (None, w1) \<Rightarrow>
          (let exe_path = truediv base_path exe_name
           in case path_exists exe_path w1 of
                (False, w2) \<Rightarrow> Some ((False, Some msg_exe_missing), w2)
              | (True, w2) \<Rightarrow>
                  (let cmd = realesrgan_cmd base_path input_path output_path;
                       w3 = py_print (''Running command: '' @ py_join '' '' cmd) w2
                   in case run_subprocess env cmd (path_str base_path) w3 of
                        None \<Rightarrow> None
                      | Some (Inl e, w4) \<Rightarrow>
                          Some ((False, Some (py_str e)),
                                py_print (''Exception in run_realesrgan: '' @ py_str e) w4)
                      | Some (Inr (returncode, out, err), w4) \<Rightarrow>
                          if returncode = 0 then Some ((True, None), w4)
                          else
                            (let error_msg =
                                   (if err \<noteq> [] then err
                                    else if out \<noteq> [] then out
                                    else msg_unknown_error)
                             in Some ((False, Some error_msg),
                                      py_print (''Real-ESRGAN error: '' @ error_msg) w4)))))"

subsection \<open>The Enhance Handler\<close>

text \<open>\<^verbatim>\<open>uuid.uuid4().hex\<close>: the 128 bits as 32 hexadecimal digits.\<close>

definition hex_digit :: "nat \<Rightarrow> char" where
  "hex_digit d = ''0123456789abcdef'' ! (d mod 16)"

fun hex_digits :: "nat \<Rightarrow> nat \<Rightarrow> string" where
  "hex_digits 0 v = []"
| "hex_digits (Suc k) v = hex_digits k (v div 16) @ [hex_digit v]"

definition uuid_hex :: "128 word \<Rightarrow> string" where
  "uuid_hex u = hex_digits 32 (unat u)"

text \<open>The names and paths of lines 100 to 107.\<close>

definition temp_dir :: "pypath \<Rightarrow> pypath" where
  "temp_dir base_path = truediv base_path ''temp''"

definition input_filename :: "128 word \<Rightarrow> string" where
  "input_filename u = ''input_'' @ uuid_hex u @ ''.jpg''"

definition output_filename :: "128 word \<Rightarrow> string" where
  "output_filename u = ''output_'' @ uuid_hex u @ ''.jpg''"

definition input_path :: "pypath \<Rightarrow> 128 word \<Rightarrow> pypath" where
  "input_path base_path u = truediv (temp_dir base_path) (input_filename u)"

definition output_path :: "pypath \<Rightarrow> 128 word \<Rightarrow> pypath" where
  "output_path base_path u = truediv (truediv base_path ''results'') (output_filename u)"

text \<open>
  What a block of statements ends in: it returned a response, or it raised. Both carry
  the world as the block left it.
\<close>

datatype outcome = Returned response world | Raised exn world

text \<open>
  Lines 99 to 133, from the creation of the temp directory on. \<open>u_in\<close> and \<open>u_out\<close>
  are the two values \<^verbatim>\<open>uuid.uuid4()\<close> draws.
\<close>

definition enhance_files ::
  "env \<Rightarrow> pypath \<Rightarrow> 128 word \<Rightarrow> 128 word \<Rightarrow> bytes \<Rightarrow> world \<Rightarrow> outcome option"
where
  "enhance_files env base_path u_in u_out image_bytes w =
     (case path_mkdir env (temp_dir base_path) w of
        (Some e, w1) \<Rightarrow> Some (Raised e w1)
      | (None, w1) \<Rightarrow>
          (case write_file env (path_str (input_path base_path u_in)) image_bytes w1 of
             (Some e, w2) \<Rightarrow> Some (Raised e w2)
           | (None, w2) \<Rightarrow>
               (case run_realesrgan env base_path
                       (path_str (input_path base_path u_in))
                       (path_str (output_path base_path u_out)) w2 of
                  None \<Rightarrow> None
                | Some ((success, error_msg), w3) \<Rightarrow>
                    (let w4 = snd (path_unlink env (input_path base_path u_in) w3);
                         (present, w5) =
                           (if success then path_exists (output_path base_path u_out) w4
                            else (False, w4))
                     in if success \<and> present
                        then Some (Returned
                               (send_json_response
                                  (JObj [(''success'', JBool True),
                                         (''enhanced_image_url'',
                                          JStr (''/results/'' @ output_filename u_out)),
                                         (''message'', JStr msg_success)])
                                  200) w5)
                        else Some (Returned
                               (send_json_response
                                  (JObj [(''error'',
                                          JStr (msg_enhance_failed @ py_format error_msg))])
                                  500) w5)))))"

text \<open>Lines 77 and 78: the body as read from the socket.\<close>

definition read_body :: "env \<Rightarrow> request \<Rightarrow> exn + bytes" where
  "read_body env req =
     (case py_int env (header_get (req_headers req) ''Content-Length'') of
        Inl e \<Rightarrow> Inl e
      | Inr content_length \<Rightarrow> rfile_read env (rfile req) content_length)"

text \<open>Line 81: \<^verbatim>\<open>json.loads(post_data.decode('utf-8'))\<close>.\<close>

definition parse_body :: "env \<Rightarrow> bytes \<Rightarrow> exn + json" where
  "parse_body env post_data =
     (case utf8_decode env post_data of
        Inl e \<Rightarrow> Inl e
      | Inr text \<Rightarrow> json_loads env text)"

text \<open>Lines 76 to 133: the body of the outer \<^verbatim>\<open>try\<close>.\<close>

definition enhance_try ::
  "env \<Rightarrow> pypath \<Rightarrow> 128 word \<Rightarrow> 128 word \<Rightarrow> request \<Rightarrow> world \<Rightarrow> outcome option"
where
  "enhance_try env base_path u_in u_out req w =
     (case read_body env req of
        Inl e \<Rightarrow> Some (Raised e w)
      | Inr post_data \<Rightarrow>
     (case parse_body env post_data of
        Inl e \<Rightarrow> Some (Raised e w)
      | Inr data \<Rightarrow>
     (case dict_get data ''image'' of
        Inl e \<Rightarrow> Some (Raised e w)
      | Inr image_data \<Rightarrow>
          if \<not> truthy image_data
          then Some (Returned
                 (send_json_response (JObj [(''error'', JStr msg_no_image)]) 400) w)
          else
            (case decode_image env image_data of
               Inl e \<Rightarrow>
                 Some (Returned
                   (send_json_response
                      (JObj [(''error'', JStr (msg_decode_failed @ py_str e))]) 400) w)
             | Inr image_bytes \<Rightarrow>
                 enhance_files env base_path u_in u_out image_bytes w))))"

text \<open>
  \<^verbatim>\<open>handle_enhance_request\<close>: the \<^verbatim>\<open>try\<close> with its two handlers (lines 135 to 139).
  The result is \<open>None\<close> when the external program never exits: no response is sent.
\<close>

definition handle_enhance_request ::
  "env \<Rightarrow> pypath \<Rightarrow> 128 word \<Rightarrow> 128 word \<Rightarrow> request \<Rightarrow> world \<Rightarrow> (response \<times> world) option"
where
  "handle_enhance_request env base_path u_in u_out req w =
     (case enhance_try env base_path u_in u_out req w of
        None \<Rightarrow> None
      | Some (Returned r w') \<Rightarrow> Some (r, w')
      | Some (Raised e w') \<Rightarrow>
          if exn_class_of e = JSONDecodeError
          then Some (send_json_response (JObj [(''error'', JStr msg_invalid_json)]) 400, w')
          else Some (send_json_response
                       (JObj [(''error'', JStr (msg_server_error @ py_str e))]) 500,
                     py_print (''Error in enhance request: '' @ py_str e) w'))"

definition do_POST ::
  "env \<Rightarrow> pypath \<Rightarrow> 128 word \<Rightarrow> 128 word \<Rightarrow> request \<Rightarrow> world \<Rightarrow> (response \<times> world) option"
where
  "do_POST env base_path u_in u_out req w =
     (if req_path req = ''/enhance''
      then handle_enhance_request env base_path u_in u_out req w
      else Some (ErrorResponse 404 ''Endpoint not found'', w))"

subsection \<open>The Static File Server and the GET routes\<close>

definition serve_file :: "env \<Rightarrow> pypath \<Rightarrow> string \<Rightarrow> world \<Rightarrow> response \<times> world" where
  "serve_file env base_path file_path w =
     (let file_path' =
            (if \<not> isabs file_path then path_str (truediv base_path file_path) else file_path)
      in case read_file env file_path' w of
           (Inl e, w1) \<Rightarrow>
             if exn_class_of e = FileNotFoundError
             then (ErrorResponse 404 ''File not found'', w1)
             else (ErrorResponse 500 ''Internal server error'',
                   py_print (''Error serving file: '' @ py_str e) w1)
         | (Inr content, w1) \<Rightarrow>
             (FileResponse
                (case guess_type env file_path' of
                   None \<Rightarrow> ''application/octet-stream''
                 | Some content_type \<Rightarrow> content_type)
                content, w1))"

text \<open>\<^verbatim>\<open>s.startswith(p)\<close>.\<close>

definition startswith :: "string \<Rightarrow> string \<Rightarrow> bool" where
  "startswith s p = (take (length p) s = p)"

definition do_GET :: "env \<Rightarrow> pypath \<Rightarrow> request \<Rightarrow> world \<Rightarrow> response \<times> world" where
  "do_GET env base_path req w =
     (let path = urlparse_path env (req_path req)
      in if path = ''/'' \<or> path = ''/index.html''
         then serve_file env base_path ''web_interface.html'' w
         else if startswith path ''/results/''
         then
           (let file_path = truediv base_path (drop 1 path)
            in case path_exists file_path w of
                 (True, w1) \<Rightarrow> serve_file env base_path (path_str file_path) w1
               | (False, w1) \<Rightarrow> (ErrorResponse 404 ''File not found'', w1))
         else (ErrorResponse 404 ''Page not found'', w))"

section \<open>An example installation\<close>

text \<open>
  Concrete values on which the definitions are run: an installation under
  \<^verbatim>\<open>/srv/app\<close>, a few requests, and doubles of the library and of the external
  program. A function of the double library is a table: it answers as the Python
  library does on the inputs listed, and with an error marked \<open>no entry\<close> elsewhere.
\<close>

definition body_empty_object :: bytes where
  "body_empty_object = [0x7B, 0x7D]"

definition body_image_A :: bytes where
  "body_image_A =
     [0x7B, 0x22, 0x69, 0x6D, 0x61, 0x67, 0x65, 0x22, 0x3A, 0x22, 0x41, 0x22, 0x7D]"

definition body_image_QUJD :: bytes where
  "body_image_QUJD =
     [0x7B, 0x22, 0x69, 0x6D, 0x61, 0x67, 0x65, 0x22, 0x3A, 0x22, 0x51, 0x55, 0x4A, 0x44,
      0x22, 0x7D]"

definition body_image_marks :: bytes where
  "body_image_marks =
     [0x7B, 0x22, 0x69, 0x6D, 0x61, 0x67, 0x65, 0x22, 0x3A, 0x22, 0x21, 0x21, 0x21, 0x21,
      0x22, 0x7D]"

definition body_null :: bytes where
  "body_null = [0x6E, 0x75, 0x6C, 0x6C]"

definition body_not_utf8 :: bytes where
  "body_not_utf8 = [0xFF]"

definition text_image_A :: string where
  \<open>text_image_A = ''{"image":"A"}''\<close>

definition text_image_QUJD :: string where
  \<open>text_image_QUJD = ''{"image":"QUJD"}''\<close>

definition text_image_marks :: string where
  \<open>text_image_marks = ''{"image":"!!!!"}''\<close>

definition text_truncated :: string where
  \<open>text_truncated = ''{"image":''\<close>

definition no_entry :: "exn_class \<Rightarrow> exn" where
  "no_entry c = Exn c ''no entry''"

definition example_int_of_str :: "string \<Rightarrow> exn + int" where
  "example_int_of_str s =
     (if s = ''1'' then Inr 1
      else if s = ''2'' then Inr 2
      else if s = ''4'' then Inr 4
      else if s = ''9'' then Inr 9
      else if s = ''13'' then Inr 13
      else if s = ''16'' then Inr 16
      else Inl (no_entry ValueError))"

definition example_utf8_decode :: "bytes \<Rightarrow> exn + string" where
  "example_utf8_decode b =
     (if b = body_empty_object then Inr ''{}''
      else if b = body_image_A then Inr text_image_A
      else if b = body_image_QUJD then Inr text_image_QUJD
      else if b = body_image_marks then Inr text_image_marks
      else if b = body_null then Inr ''null''
      else if b = take 9 body_image_QUJD then Inr text_truncated
      else if b = body_not_utf8
      then Inl (Exn UnicodeDecodeError
             (quoted ''utf-8''
              @ '' codec can't decode byte 0xff in position 0: invalid start byte''))
      else Inl (no_entry UnicodeDecodeError))"

definition example_json_loads :: "string \<Rightarrow> exn + json" where
  "example_json_loads s =
     (if s = ''{}'' then Inr (JObj [])
      else if s = text_image_A then Inr (JObj [(''image'', JStr ''A'')])
      else if s = text_image_QUJD then Inr (JObj [(''image'', JStr ''QUJD'')])
      else if s = text_image_marks then Inr (JObj [(''image'', JStr ''!!!!'')])
      else if s = ''null'' then Inr JNull
      else if s = text_truncated
      then Inl (Exn JSONDecodeError ''Expecting value: line 1 column 10 (char 9)'')
      else Inl (no_entry JSONDecodeError))"

definition example_b64decode :: "string \<Rightarrow> exn + bytes" where
  "example_b64decode s =
     (if s = ''QUJD'' then Inr [0x41, 0x42, 0x43]
      else if s = ''!!!!'' then Inr []
      else if s = ''A''
      then Inl (Exn BinasciiError
             (''Invalid base64-encoded string: number of data characters (1) ''
              @ ''cannot be 1 more than a multiple of 4''))
      else Inl (no_entry BinasciiError))"

definition example_guess_type :: "string \<Rightarrow> string option" where
  "example_guess_type s =
     (if s = ''/srv/app/results/../web_server.py'' then Some ''text/x-python''
      else if s = ''/srv/app/results/old.jpg'' then Some ''image/jpeg''
      else None)"

definition example_strerror :: "exn_class \<Rightarrow> string \<Rightarrow> string" where
  "example_strerror c s =
     (case c of
        FileNotFoundError \<Rightarrow> ''[Errno 2] No such file or directory: ''
      | FileExistsError \<Rightarrow> ''[Errno 17] File exists: ''
      | NotADirectoryError \<Rightarrow> ''[Errno 20] Not a directory: ''
      | IsADirectoryError \<Rightarrow> ''[Errno 21] Is a directory: ''
      | PermissionError \<Rightarrow> ''[Errno 13] Permission denied: ''
      | _ \<Rightarrow> ''[Errno 5] Input/output error: '') @ quoted s"

text \<open>A host that allocates buffers of up to a mebibyte.\<close>

definition example_alloc_error :: "int \<Rightarrow> exn option" where
  "example_alloc_error n = (if n \<le> 2 ^ 20 then None else Some (Exn MemoryError []))"

text \<open>
  Four doubles of the external program. The first writes two bytes to the path after
  \<^verbatim>\<open>-o\<close> and exits with 0. The second exits with 1 and a line on its error stream. The
  third does the same and leaves the file after \<^verbatim>\<open>-i\<close> locked, as a program does that
  hands the file to a process which outlives it. The fourth prints a line on its error
  stream, writes nothing and exits with 0.
\<close>

definition silent_tool :: "string list \<Rightarrow> string \<Rightarrow> filesystem \<Rightarrow> run_outcome" where
  "silent_tool cmd d fs = Completed 0 [] ''vkQueueSubmit failed'' fs"

definition writing_tool :: "string list \<Rightarrow> string \<Rightarrow> filesystem \<Rightarrow> run_outcome" where
  "writing_tool cmd d fs =
     (case cmd of
        [exe, i_flag, inp, o_flag, outp, n_flag, model, t_flag, tile, j_flag, jobs] \<Rightarrow>
          (case os_write fs (path_parts d) outp [0x89, 0x50] of
             Inr fs' \<Rightarrow> Completed 0 [] [] fs'
           | Inl c \<Rightarrow> Completed 1 [] ''cannot write the output'' fs)
      | _ \<Rightarrow> Completed 2 [] ''usage'' fs)"

definition failing_tool :: "string list \<Rightarrow> string \<Rightarrow> filesystem \<Rightarrow> run_outcome" where
  "failing_tool cmd d fs = Completed 1 [] ''invalid gpu device'' fs"

definition locking_tool :: "string list \<Rightarrow> string \<Rightarrow> filesystem \<Rightarrow> run_outcome" where
  "locking_tool cmd d fs =
     (case cmd of
        [exe, i_flag, inp, o_flag, outp, n_flag, model, t_flag, tile, j_flag, jobs] \<Rightarrow>
          Completed 1 [] ''invalid gpu device''
            (fs\<lparr>locked := (\<lambda>l. Inr l = locate fs (path_parts d) inp)\<rparr>)
      | _ \<Rightarrow> Completed 2 [] ''usage'' fs)"

definition example_env :: env where
  "example_env =
     \<lparr>int_of_str = example_int_of_str,
      utf8_decode = example_utf8_decode,
      json_loads = example_json_loads,
      b64decode_str = example_b64decode,
      urlparse_path = (\<lambda>s. s),
      guess_type = example_guess_type,
      strerror = example_strerror,
      alloc_error = example_alloc_error,
      subprocess_run = writing_tool\<rparr>"

definition example_base :: pypath where
  "example_base = PyPath True [''srv'', ''app'']"

text \<open>
  The installation: the script, the executable and the results directory with one
  earlier result.
\<close>

definition example_files :: filesystem where
  "example_files =
     \<lparr>nodes = map_of
        [([''srv''], Dir),
         ([''srv'', ''app''], Dir),
         ([''srv'', ''app'', ''web_server.py''], File [0x23, 0x21]),
         ([''srv'', ''app'', ''results''], Dir),
         ([''srv'', ''app'', ''results'', ''old.jpg''], File [0xFF, 0xD8]),
         ([''srv'', ''app'', ''realesrgan-ncnn-vulkan.exe''], File [0x4D, 0x5A])],
      locked = (\<lambda>l. False)\<rparr>"

definition example_world :: world where
  "example_world =
     \<lparr>files = example_files, workdir = [''srv'', ''app''], trace = [], console = []\<rparr>"

text \<open>The same without the executable and without the results directory.\<close>

definition bare_files :: filesystem where
  "bare_files =
     \<lparr>nodes = map_of
        [([''srv''], Dir),
         ([''srv'', ''app''], Dir),
         ([''srv'', ''app'', ''web_server.py''], File [0x23, 0x21])],
      locked = (\<lambda>l. False)\<rparr>"

definition bare_world :: world where
  "bare_world =
     \<lparr>files = bare_files, workdir = [''srv'', ''app''], trace = [], console = []\<rparr>"

definition post_enhance :: "(string \<times> string) list \<Rightarrow> bytes \<Rightarrow> request" where
  "post_enhance hs b = \<lparr>req_path = ''/enhance'', req_headers = hs, rfile = b\<rparr>"

definition get_request :: "string \<Rightarrow> request" where
  "get_request p = \<lparr>req_path = p, req_headers = [], rfile = []\<rparr>"

text \<open>
  A request with a body of 16 bytes, \<^verbatim>\<open>{"image":"QUJD"}\<close>, and the worlds it leaves
  behind after the temp directory is made, after the input file is written and after the
  external program has run.
\<close>

definition example_post :: request where
  "example_post = post_enhance [(''Content-Length'', ''16'')] body_image_QUJD"

definition example_w1 :: world where
  "example_w1 = snd (path_mkdir example_env (temp_dir example_base) example_world)"

definition example_w2 :: world where
  "example_w2 =
     snd (write_file example_env (path_str (input_path example_base 1)) [0x41, 0x42, 0x43]
            example_w1)"

definition example_w3 :: world where
  "example_w3 =
     snd (the (run_realesrgan example_env example_base (path_str (input_path example_base 1))
                 (path_str (output_path example_base 2)) example_w2))"

text \<open>
  Base64 as RFC 4648 defines it, which is what \<^verbatim>\<open>base64.b64decode\<close> accepts when it is
  called with \<^verbatim>\<open>validate=True\<close>: characters of the alphabet, then at most two padding
  characters, a multiple of four characters in all.
\<close>

definition base64_alphabet :: "char \<Rightarrow> bool" where
  "base64_alphabet c =
     (c \<in> set ''ABCDEFGHIJKLMNOPQRSTUVWXYZabcdefghijklmnopqrstuvwxyz0123456789+/'')"

definition valid_base64 :: "string \<Rightarrow> bool" where
  "valid_base64 s =
     (let d = takeWhile (\<lambda>c. c \<noteq> CHR ''='') s;
          p = dropWhile (\<lambda>c. c \<noteq> CHR ''='') s
      in list_all base64_alphabet d \<and> list_all (\<lambda>c. c = CHR ''='') p
         \<and> length p \<le> 2 \<and> length s mod 4 = 0)"

text \<open>The writes among the calls of a trace.\<close>

fun is_write :: "effect \<Rightarrow> bool" where
  "is_write (OpenWrite s b) = True"
| "is_write e = False"

text \<open>A location lies inside a directory when the directory's location is a prefix of it.\<close>

definition inside :: "loc \<Rightarrow> loc \<Rightarrow> bool" where
  "inside d l = (take (length d) l = d)"

section \<open>Properties of the building blocks\<close>

subsection \<open>Splitting at commas\<close>

lemma split_acc_hd:
  "split_acc sep acc s = (rev acc @ takeWhile (\<lambda>c. c \<noteq> sep) s) #
     (case dropWhile (\<lambda>c. c \<noteq> sep) s of [] \<Rightarrow> [] | c # r \<Rightarrow> split_acc sep [] r)"
  by (induction s arbitrary: acc) auto

text \<open>
  For a string, lines 91 and 92 never raise: with a comma in it, the decoder gets the
  text between the first comma and the second one (or the end).
\<close>

lemma decoder_input_str:
  "decoder_input (JStr s) =
     Inr (JStr (if CHR '','' \<in> set s
                then takeWhile (\<lambda>c. c \<noteq> CHR '','') (drop 1 (dropWhile (\<lambda>c. c \<noteq> CHR '','') s))
                else s))"
proof (cases "CHR '','' \<in> set s")
  case False
  then show ?thesis by (simp add: decoder_input_def)
next
  case True
  then obtain c r where d: "dropWhile (\<lambda>c. c \<noteq> CHR '','') s = c # r"
    by (cases "dropWhile (\<lambda>c. c \<noteq> CHR '','') s") (auto simp: dropWhile_eq_Nil_conv)
  have "py_split CHR '','' s = takeWhile (\<lambda>c. c \<noteq> CHR '','') s # split_acc CHR '','' [] r"
    unfolding py_split_def by (subst split_acc_hd) (simp add: d)
  moreover have "split_acc CHR '','' [] r = takeWhile (\<lambda>c. c \<noteq> CHR '','') r #
      (case dropWhile (\<lambda>c. c \<noteq> CHR '','') r of [] \<Rightarrow> [] | c # r \<Rightarrow> split_acc CHR '','' [] r)"
    by (subst split_acc_hd) simp
  ultimately show ?thesis using True
    by (simp add: decoder_input_def py_index_def d)
qed

lemma takeWhile_no_sep: "sep \<notin> set s \<Longrightarrow> takeWhile (\<lambda>c. c \<noteq> sep) s = s"
  by (induction s) auto

subsection \<open>Calls and their traces\<close>

lemma makedirs_trace:
  "makedirs env s w = (r, w1) \<Longrightarrow> trace w1 = trace w @ [Makedirs s] \<and> workdir w1 = workdir w"
  by (auto simp: makedirs_def log_def Let_def split: prod.splits option.splits)

lemma path_exists_simps:
  "fst (path_exists p w) = os_exists (files w) (workdir w) (path_str p)"
  "trace (snd (path_exists p w)) = trace w @ [Stat (path_str p)]"
  "files (snd (path_exists p w)) = files w"
  "workdir (snd (path_exists p w)) = workdir w"
  by (simp_all add: path_exists_def log_def)

lemma run_subprocess_trace:
  "run_subprocess env cmd d w = Some (r, w1) \<Longrightarrow>
     trace w1 = trace w @ [Spawn cmd d] \<and> workdir w1 = workdir w"
  by (auto simp: run_subprocess_def log_def Let_def split: run_outcome.splits)

lemma run_subprocess_returns:
  "subprocess_run env cmd d (files w) \<noteq> NeverReturns \<Longrightarrow> \<exists>r w1. run_subprocess env cmd d w = Some (r, w1)"
  by (auto simp: run_subprocess_def Let_def split: run_outcome.splits)

lemma path_mkdir_trace:
  "path_mkdir env p w = (r, w1) \<Longrightarrow>
     trace w1 = trace w @ [Mkdir (path_str p)] \<and> workdir w1 = workdir w"
  by (auto simp: path_mkdir_def log_def Let_def split: sum.splits if_splits)

lemma write_file_trace:
  "write_file env s b w = (r, w1) \<Longrightarrow>
     trace w1 = trace w @ [OpenWrite s b] \<and> workdir w1 = workdir w"
  by (auto simp: write_file_def log_def Let_def split: sum.splits)

lemma path_unlink_simps:
  "trace (snd (path_unlink env p w)) = trace w @ [Unlink (path_str p)]"
  "workdir (snd (path_unlink env p w)) = workdir w"
  "files (snd (path_unlink env p w)) =
     (case os_unlink (files w) (workdir w) (path_str p) of Inl c \<Rightarrow> files w | Inr fs' \<Rightarrow> fs')"
  by (simp_all add: path_unlink_def log_def Let_def split: sum.splits)

text \<open>
  Whatever it returns, the Process Invoker calls nothing but \<^verbatim>\<open>os.makedirs\<close>, the test
  for the executable and \<^verbatim>\<open>subprocess.run\<close>.
\<close>

lemma run_realesrgan_trace:
  assumes "run_realesrgan env base_path inp outp w = Some (r, w')"
  shows "\<exists>es. trace w' = trace w @ es
           \<and> set es \<subseteq> {Makedirs (dirname outp), Stat (path_str (truediv base_path exe_name)),
                        Spawn (realesrgan_cmd base_path inp outp) (path_str base_path)}"
proof -
  obtain m w1 where m: "makedirs env (dirname outp) w = (m, w1)"
    by (cases "makedirs env (dirname outp) w")
  have t1: "trace w1 = trace w @ [Makedirs (dirname outp)]"
    using makedirs_trace [OF m] by simp
  show ?thesis
  proof (cases m)
    case (Some e)
    then have "trace w' = trace w1"
      using assms m by (auto simp: run_realesrgan_def py_print_def)
    then show ?thesis using t1 by simp
  next
    case None
    let ?exe = "path_str (truediv base_path exe_name)"
    show ?thesis
    proof (cases "os_exists (files w1) (workdir w1) ?exe")
      case False
      then have "trace w' = trace w1 @ [Stat ?exe]"
        using assms m None by (auto simp: run_realesrgan_def path_exists_def log_def)
      then show ?thesis using t1 by simp
    next
      case True
      let ?cmd = "realesrgan_cmd base_path inp outp"
      let ?w3 = "py_print (''Running command: '' @ py_join '' '' ?cmd) (log (Stat ?exe) w1)"
      from assms m None True obtain r4 w4 where
        r: "run_subprocess env ?cmd (path_str base_path) ?w3 = Some (r4, w4)"
        and w': "trace w' = trace w4"
        by (auto simp: run_realesrgan_def path_exists_def Let_def py_print_def
            split: option.splits sum.splits prod.splits if_splits)
      have "trace w4 = trace w1 @ [Stat ?exe, Spawn ?cmd (path_str base_path)]"
        using run_subprocess_trace [OF r] by (simp add: py_print_def log_def)
      then show ?thesis using t1 w' by simp
    qed
  qed
qed

text \<open>A failure of the Process Invoker always carries a detail; a success carries none.\<close>

lemma run_realesrgan_failure_detail:
  assumes "run_realesrgan env base_path inp outp w = Some ((success, error_msg), w')"
  shows "(success \<longrightarrow> error_msg = None) \<and> (\<not> success \<longrightarrow> (\<exists>detail. error_msg = Some detail))"
  using assms
  by (auto simp: run_realesrgan_def Let_def
      split: prod.splits option.splits sum.splits if_splits bool.splits)

subsection \<open>Removing a file\<close>

lemma walk_after_remove:
  assumes "walk fs cur ps = Inr l" and "node_at fs l = Some (File b)"
    and same: "\<And>p. p \<noteq> l \<Longrightarrow> node_at fs' p = node_at fs p"
  shows "walk fs' cur ps = Inr l"
  using assms(1,2)
proof (induction ps arbitrary: cur)
  case Nil
  then show ?case by simp
next
  case (Cons c cs)
  from Cons.prems have d: "node_at fs cur = Some Dir"
    by (auto split: option.splits node.splits)
  with Cons.prems(2) have "cur \<noteq> l" by auto
  with d same have d': "node_at fs' cur = Some Dir" by simp
  from Cons.prems d have "walk fs (if c = ''..'' then butlast cur else cur @ [c]) cs = Inr l"
    by simp
  from Cons.IH [OF this Cons.prems(2)] have
    "walk fs' (if c = ''..'' then butlast cur else cur @ [c]) cs = Inr l" .
  then show ?case by (simp only: walk.simps d' option.case node.case)
qed

lemma os_unlink_removes:
  assumes "os_unlink fs cwd s = Inr fs'"
  shows "\<not> os_exists fs' cwd s"
proof -
  from assms obtain l b where l: "locate fs cwd s = Inr l" and n: "node_at fs l = Some (File b)"
    and fs': "fs' = fs\<lparr>nodes := (nodes fs)(l := None)\<rparr>"
    by (auto simp: os_unlink_def split: sum.splits option.splits node.splits if_splits)
  from n have "l \<noteq> []" by (auto simp: node_at_def)
  then have gone: "node_at fs' l = None" by (simp add: fs' node_at_def)
  from l have "s \<noteq> []" and w: "walk fs (if isabs s then [] else cwd) (path_parts s) = Inr l"
    by (auto simp: locate_def split: if_splits)
  have "walk fs' (if isabs s then [] else cwd) (path_parts s) = Inr l"
    by (rule walk_after_remove [OF w n]) (simp add: fs' node_at_def)
  then have "locate fs' cwd s = Inr l"
    using \<open>s \<noteq> []\<close> by (simp add: locate_def)
  with gone show ?thesis by (simp add: os_exists_def os_stat_def)
qed

lemma os_read_exists: "os_read fs cwd s = Inr b \<Longrightarrow> os_exists fs cwd s"
  by (auto simp: os_read_def os_exists_def os_stat_def split: sum.splits option.splits node.splits)

subsection \<open>The handler, once the image is decoded\<close>

lemma enhance_files_returns:
  assumes "path_mkdir env (temp_dir base_path) w = (None, w1)"
    and "write_file env (path_str (input_path base_path u_in)) image_bytes w1 = (None, w2)"
    and "run_realesrgan env base_path (path_str (input_path base_path u_in))
           (path_str (output_path base_path u_out)) w2 = Some ((success, error_msg), w3)"
  shows "enhance_files env base_path u_in u_out image_bytes w =
           Some (Returned
             (if success \<and> os_exists (files (snd (path_unlink env (input_path base_path u_in) w3)))
                   (workdir (snd (path_unlink env (input_path base_path u_in) w3)))
                   (path_str (output_path base_path u_out))
              then JsonResponse 200
                     (JObj [(''success'', JBool True),
                            (''enhanced_image_url'', JStr (''/results/'' @ output_filename u_out)),
                            (''message'', JStr msg_success)])
              else JsonResponse 500
                     (JObj [(''error'', JStr (msg_enhance_failed @ py_format error_msg))]))
             (if success
              then snd (path_exists (output_path base_path u_out)
                          (snd (path_unlink env (input_path base_path u_in) w3)))
              else snd (path_unlink env (input_path base_path u_in) w3)))"
  using assms
  by (simp add: enhance_files_def Let_def send_json_response_def path_exists_def
      split: prod.splits)

lemma handle_reaches_files:
  assumes "read_body env req = Inr post_data"
    and "parse_body env post_data = Inr data"
    and "dict_get data ''image'' = Inr image_data"
    and "truthy image_data"
    and "decode_image env image_data = Inr image_bytes"
    and "enhance_files env base_path u_in u_out image_bytes w = Some (Returned r w')"
  shows "handle_enhance_request env base_path u_in u_out req w = Some (r, w')"
  using assms by (simp add: handle_enhance_request_def enhance_try_def)

subsection \<open>The GET route for results\<close>

lemma startswith_results:
  assumes "startswith path ''/results/''"
  shows "path \<noteq> ''/''" and "path \<noteq> ''/index.html''" and "\<not> isabs (drop 1 path)"
proof -
  have "path = take (length ''/results/'') path @ drop (length ''/results/'') path"
    by (simp only: append_take_drop_id)
  with assms obtain r where p: "path = ''/results/'' @ r"
    unfolding startswith_def by metis
  show "path \<noteq> ''/''" and "path \<noteq> ''/index.html''" and "\<not> isabs (drop 1 path)"
    by (simp_all add: p isabs_def)
qed

lemma isabs_path_str: "isabs (path_str (PyPath True ps))"
  by (simp add: isabs_def)

subsection \<open>The example installation\<close>

lemma pair_with_snd: "fst p = a \<Longrightarrow> p = (a, snd p)"
  by (cases p) simp

lemma some_with_snd: "map_option fst x = Some a \<Longrightarrow> x = Some (a, snd (the x))"
  by (cases x) auto

lemma read_body_empty_object:
  "read_body example_env (post_enhance [(''Content-Length'', ''2'')] body_empty_object)
     = Inr body_empty_object"
  by code_simp

lemma parse_body_empty_object: "parse_body example_env body_empty_object = Inr (JObj [])"
  by code_simp

lemma example_post_front:
  "read_body example_env example_post = Inr body_image_QUJD"
  "parse_body example_env body_image_QUJD = Inr (JObj [(''image'', JStr ''QUJD'')])"
  "dict_get (JObj [(''image'', JStr ''QUJD'')]) ''image'' = Inr (JStr ''QUJD'')"
  "truthy (JStr ''QUJD'')"
  "decode_image example_env (JStr ''QUJD'') = Inr [0x41, 0x42, 0x43]"
  by code_simp+

lemma example_mkdir:
  "path_mkdir example_env (temp_dir example_base) example_world = (None, example_w1)"
  unfolding example_w1_def by (rule pair_with_snd) code_simp

lemma example_write:
  "write_file example_env (path_str (input_path example_base 1)) [0x41, 0x42, 0x43] example_w1
     = (None, example_w2)"
  unfolding example_w2_def by (rule pair_with_snd) code_simp

lemma example_run:
  "run_realesrgan example_env example_base (path_str (input_path example_base 1))
     (path_str (output_path example_base 2)) example_w2 = Some ((True, None), example_w3)"
  unfolding example_w3_def by (rule some_with_snd) code_simp

section \<open>The claims\<close>

subsection \<open>C1: what the decoder is given\<close>

text \<open>
  Claim C1 says that for an \<^verbatim>\<open>image\<close> string with at least one comma the decoder gets
  the whole text after the first comma, later commas included. The code takes
  \<^verbatim>\<open>image_data.split(',')[1]\<close>, which ends at the second comma: for
  \<^verbatim>\<open>data:image/png;base64,QUJD,REVG\<close> the decoder gets \<^verbatim>\<open>QUJD\<close>, while the text after
  the first comma is \<^verbatim>\<open>QUJD,REVG\<close>. The comment of line 90 announces the removal of the
  prefix \<^verbatim>\<open>data:image/...;base64,\<close> only.
\<close>

theorem decoder_input_stops_at_second_comma:
  "decoder_input (JStr ''data:image/png;base64,QUJD,REVG'') = Inr (JStr ''QUJD'')
   \<and> drop 1 (dropWhile (\<lambda>c. c \<noteq> CHR '','') ''data:image/png;base64,QUJD,REVG'') = ''QUJD,REVG''"
  by (simp add: decoder_input_str)

subsection \<open>C2: a data URI decodes as its payload\<close>

text \<open>
  Claim C2: for every string \<open>B\<close> without a comma, the decode step (lines 91 to 94)
  gives the same result, bytes or exception, for \<^verbatim>\<open>data:image/png;base64,\<close> followed by
  \<open>B\<close> as for \<open>B\<close> itself, whatever the decoder is.
\<close>

theorem data_uri_prefix_decodes_as_raw:
  "CHR '','' \<notin> set B \<Longrightarrow>
     decode_image env (JStr (''data:image/png;base64,'' @ B)) = decode_image env (JStr B)"
  by (simp add: decode_image_def decoder_input_str takeWhile_no_sep)

text \<open>
  The example: \<^verbatim>\<open>QUJD\<close> decodes to the bytes of \<^verbatim>\<open>ABC\<close> with and without the prefix.
\<close>

theorem data_uri_prefix_decodes_as_raw_witness:
  "CHR '','' \<notin> set ''QUJD''
   \<and> decode_image example_env (JStr ''data:image/png;base64,QUJD'') = Inr [0x41, 0x42, 0x43]
   \<and> decode_image example_env (JStr ''QUJD'') = Inr [0x41, 0x42, 0x43]"
proof -
  have h: "CHR '','' \<notin> set ''QUJD''" by simp
  have r: "decode_image example_env (JStr ''QUJD'') = Inr [0x41, 0x42, 0x43]"
    by (simp add: decode_image_def decoder_input_str example_env_def example_b64decode_def)
  show ?thesis using data_uri_prefix_decodes_as_raw [OF h, of example_env] r h by simp
qed

subsection \<open>C3: a body that is not JSON\<close>

text \<open>
  Claim C3 as amended: let the body be read (lines 77 and 78 do not raise). When the
  body decodes as UTF-8 and \<^verbatim>\<open>json.loads\<close> raises \<^verbatim>\<open>JSONDecodeError\<close>, the handler answers
  400 with the JSON body of line 136 and leaves the world as it was: no call to the file
  system, no process. When the body does not decode as UTF-8, the handler still answers
  with a JSON body that has an \<^verbatim>\<open>error\<close> string, and again makes no call and changes no
  file. In both cases a response is returned, so no exception leaves the handler.
\<close>

theorem malformed_json_is_400:
  assumes "read_body env req = Inr post_data"
  shows "(utf8_decode env post_data = Inr text \<and> json_loads env text = Inl e
            \<and> exn_class_of e = JSONDecodeError \<longrightarrow>
          handle_enhance_request env base_path u_in u_out req w =
            Some (JsonResponse 400 (JObj [(''error'', JStr msg_invalid_json)]), w))
       \<and> (utf8_decode env post_data = Inl e \<longrightarrow>
          (\<exists>status_code msg w'.
             handle_enhance_request env base_path u_in u_out req w =
               Some (JsonResponse status_code (JObj [(''error'', JStr msg)]), w')
             \<and> trace w' = trace w \<and> files w' = files w))"
proof (intro conjI impI)
  assume "utf8_decode env post_data = Inr text \<and> json_loads env text = Inl e
            \<and> exn_class_of e = JSONDecodeError"
  then show "handle_enhance_request env base_path u_in u_out req w =
            Some (JsonResponse 400 (JObj [(''error'', JStr msg_invalid_json)]), w)"
    using assms
    by (simp add: handle_enhance_request_def enhance_try_def send_json_response_def
        parse_body_def)
next
  assume a: "utf8_decode env post_data = Inl e"
  show "\<exists>status_code msg w'.
             handle_enhance_request env base_path u_in u_out req w =
               Some (JsonResponse status_code (JObj [(''error'', JStr msg)]), w')
             \<and> trace w' = trace w \<and> files w' = files w"
  proof (cases "exn_class_of e = JSONDecodeError")
    case True
    then have "handle_enhance_request env base_path u_in u_out req w =
            Some (JsonResponse 400 (JObj [(''error'', JStr msg_invalid_json)]), w)"
      using assms a
      by (simp add: handle_enhance_request_def enhance_try_def send_json_response_def
          parse_body_def)
    then show ?thesis by simp
  next
    case False
    then have "handle_enhance_request env base_path u_in u_out req w =
            Some (JsonResponse 500 (JObj [(''error'', JStr (msg_server_error @ py_str e))]),
                  py_print (''Error in enhance request: '' @ py_str e) w)"
      using assms a
      by (simp add: handle_enhance_request_def enhance_try_def send_json_response_def
          parse_body_def)
    moreover have "trace (py_print (''Error in enhance request: '' @ py_str e) w) = trace w"
      and "files (py_print (''Error in enhance request: '' @ py_str e) w) = files w"
      by (simp_all add: py_print_def)
    ultimately show ?thesis by blast
  qed
qed

text \<open>
  The example: a body cut off after 9 of its 16 bytes by \<^verbatim>\<open>Content-Length: 9\<close> is
  answered with 400 in an unchanged world.
\<close>

theorem malformed_json_is_400_witness:
  "handle_enhance_request example_env example_base 1 2
     (post_enhance [(''Content-Length'', ''9'')] body_image_QUJD) example_world =
   Some (JsonResponse 400 (JObj [(''error'', JStr msg_invalid_json)]), example_world)"
proof -
  have h1: "read_body example_env (post_enhance [(''Content-Length'', ''9'')] body_image_QUJD)
              = Inr (take 9 body_image_QUJD)"
    by code_simp
  have h2: "utf8_decode example_env (take 9 body_image_QUJD) = Inr text_truncated
      \<and> json_loads example_env text_truncated =
          Inl (Exn JSONDecodeError ''Expecting value: line 1 column 10 (char 9)'')
      \<and> exn_class_of (Exn JSONDecodeError ''Expecting value: line 1 column 10 (char 9)'')
          = JSONDecodeError"
    by code_simp
  show ?thesis
    using malformed_json_is_400 [OF h1, of text_truncated
        "Exn JSONDecodeError ''Expecting value: line 1 column 10 (char 9)''"
        example_base 1 2 example_world] h2
    by blast
qed

text \<open>
  Claim C3 as stated fails for a body that is not valid UTF-8: \<^verbatim>\<open>decode\<close> raises
  \<^verbatim>\<open>UnicodeDecodeError\<close>, which is not a \<^verbatim>\<open>JSONDecodeError\<close>, so the handler of line 137
  answers with status 500.
\<close>

theorem not_utf8_body_is_500:
  "parse_body example_env body_not_utf8 =
     Inl (Exn UnicodeDecodeError
            (quoted ''utf-8''
             @ '' codec can't decode byte 0xff in position 0: invalid start byte''))
   \<and> map_option fst
       (handle_enhance_request example_env example_base 1 2
          (post_enhance [(''Content-Length'', ''1'')] body_not_utf8) example_world) =
     Some (JsonResponse 500
       (JObj [(''error'', JStr (msg_server_error @ quoted ''utf-8''
                @ '' codec can't decode byte 0xff in position 0: invalid start byte''))]))"
  by code_simp

subsection \<open>C4: an image that does not decode\<close>

text \<open>
  Claim C4 as amended: when the request has a JSON body with an \<^verbatim>\<open>image\<close> value that is
  not empty, and \<^verbatim>\<open>base64.b64decode\<close> raises on the value lines 91 and 92 hand to it, the
  handler answers 400 with the message of line 96 followed by the text of the exception,
  and leaves the world as it was: no temp file is written. The decoder is called in its
  default mode, so the values refused are those on which this call raises, not all that
  are not valid base64.
\<close>

theorem invalid_base64_is_400:
  assumes "read_body env req = Inr post_data"
    and "parse_body env post_data = Inr data"
    and "dict_get data ''image'' = Inr image_data"
    and "truthy image_data"
    and "decoder_input image_data = Inr payload"
    and "b64decode env payload = Inl e"
  shows "handle_enhance_request env base_path u_in u_out req w =
           Some (JsonResponse 400 (JObj [(''error'', JStr (msg_decode_failed @ py_str e))]), w)"
  using assms
  by (simp add: handle_enhance_request_def enhance_try_def send_json_response_def
      decode_image_def)

text \<open>
  The example: the image \<^verbatim>\<open>A\<close>, one base64 character, which the decoder refuses.
\<close>

theorem invalid_base64_is_400_witness:
  "handle_enhance_request example_env example_base 1 2
     (post_enhance [(''Content-Length'', ''13'')] body_image_A) example_world =
   Some (JsonResponse 400
           (JObj [(''error'',
                   JStr (msg_decode_failed
                         @ ''Invalid base64-encoded string: number of data characters (1) ''
                         @ ''cannot be 1 more than a multiple of 4''))]),
         example_world)"
proof -
  let ?e = "Exn BinasciiError
             (''Invalid base64-encoded string: number of data characters (1) ''
              @ ''cannot be 1 more than a multiple of 4'')"
  have h1: "read_body example_env (post_enhance [(''Content-Length'', ''13'')] body_image_A)
              = Inr body_image_A"
    by code_simp
  have h2: "parse_body example_env body_image_A = Inr (JObj [(''image'', JStr ''A'')])"
    by code_simp
  have h3: "dict_get (JObj [(''image'', JStr ''A'')]) ''image'' = Inr (JStr ''A'')"
    by code_simp
  have h4: "truthy (JStr ''A'')" by simp
  have h5: "decoder_input (JStr ''A'') = Inr (JStr ''A'')" by code_simp
  have h6: "b64decode example_env (JStr ''A'') = Inl ?e" by code_simp
  show ?thesis
    using invalid_base64_is_400 [OF h1 h2 h3 h4 h5 h6, of example_base 1 2 example_world] by simp
qed

text \<open>
  Claim C4 as stated fails for an image that is not valid base64 and that the decoder
  accepts: \<^verbatim>\<open>base64.b64decode\<close> without \<^verbatim>\<open>validate\<close> discards the characters outside the
  alphabet, so \<^verbatim>\<open>!!!!\<close> decodes to no bytes. The handler then writes the (empty) temp
  input file and, with the program that writes its output, answers 200.
\<close>

theorem lenient_decoder_accepts_invalid_base64:
  "\<not> valid_base64 ''!!!!''
   \<and> decoder_input (JStr ''!!!!'') = Inr (JStr ''!!!!'')
   \<and> map_option (\<lambda>(r, w'). (status_of r, filter is_write (trace w')))
       (handle_enhance_request example_env example_base 1 2
          (post_enhance [(''Content-Length'', ''16'')] body_image_marks) example_world)
     = Some (200, [OpenWrite ''/srv/app/temp/input_00000000000000000000000000000001.jpg'' []])"
  by code_simp

subsection \<open>C5: no image\<close>

text \<open>
  Claim C5 as amended: when the body is read and is a JSON object without the key
  \<^verbatim>\<open>image\<close>, or with a value there that Python takes for false (the empty string,
  \<^verbatim>\<open>null\<close>, ...), the handler answers 400 with a JSON body whose \<^verbatim>\<open>error\<close> is a string
  that is not empty, and leaves the world as it was: no file written, no directory made,
  no process run.
\<close>

theorem missing_image_is_400:
  assumes "read_body env req = Inr post_data"
    and "parse_body env post_data = Inr (JObj kvs)"
    and "map_of kvs ''image'' = None \<or> (\<exists>v. map_of kvs ''image'' = Some v \<and> \<not> truthy v)"
  shows "handle_enhance_request env base_path u_in u_out req w =
           Some (JsonResponse 400 (JObj [(''error'', JStr msg_no_image)]), w)
         \<and> msg_no_image \<noteq> []"
  using assms
  by (auto simp: handle_enhance_request_def enhance_try_def send_json_response_def
      msg_no_image_def)

text \<open>
  The example: the body \<^verbatim>\<open>{}\<close>.
\<close>

theorem missing_image_is_400_witness:
  "handle_enhance_request example_env example_base 1 2
     (post_enhance [(''Content-Length'', ''2'')] body_empty_object) example_world =
   Some (JsonResponse 400 (JObj [(''error'', JStr msg_no_image)]), example_world)"
  using missing_image_is_400 [OF read_body_empty_object parse_body_empty_object, of example_base 1 2 example_world]
  by simp

text \<open>
  Claim C5 as stated fails for a JSON body that is not an object: the body \<^verbatim>\<open>null\<close> has
  no \<^verbatim>\<open>image\<close> field, \<^verbatim>\<open>data.get\<close> raises \<^verbatim>\<open>AttributeError\<close> at line 82, and the handler
  of line 137 answers 500.
\<close>

theorem null_body_is_500:
  "parse_body example_env body_null = Inr JNull
   \<and> map_option fst
       (handle_enhance_request example_env example_base 1 2
          (post_enhance [(''Content-Length'', ''4'')] body_null) example_world)
     = Some (JsonResponse 500
         (JObj [(''error'',
                 JStr (msg_server_error @ quoted ''NoneType''
                       @ '' object has no attribute '' @ quoted ''get''))]))"
  by code_simp

subsection \<open>C6: the temp input file\<close>

text \<open>
  Claim C6 as amended: let the request carry an image that decodes, let the temp
  directory be made and the input file be written without an error, and let the
  external program return. Then the handler responds, and its calls are, in this order:
  the \<^verbatim>\<open>mkdir\<close> of the temp directory, one write of the decoded bytes to the input path,
  the calls of the Process Invoker (none of them a write or an unlink), one \<^verbatim>\<open>unlink\<close> of
  the input path whether the invocation succeeded or not, and the test for the output
  file after a success. When that \<^verbatim>\<open>unlink\<close> succeeds, the input file does not exist when
  the request ends. When it raises, the error is passed over; nothing is said of the
  file then.
\<close>

theorem temp_file_written_once_then_unlinked:
  assumes "read_body env req = Inr post_data"
    and "parse_body env post_data = Inr data"
    and "dict_get data ''image'' = Inr image_data"
    and "truthy image_data"
    and "decode_image env image_data = Inr image_bytes"
    and "path_mkdir env (temp_dir base_path) w = (None, w1)"
    and "write_file env (path_str (input_path base_path u_in)) image_bytes w1 = (None, w2)"
    and "run_realesrgan env base_path (path_str (input_path base_path u_in))
           (path_str (output_path base_path u_out)) w2 = Some ((success, error_msg), w3)"
  shows "\<exists>r w' es.
           handle_enhance_request env base_path u_in u_out req w = Some (r, w')
         \<and> trace w' =
             trace w
             @ [Mkdir (path_str (temp_dir base_path)),
                OpenWrite (path_str (input_path base_path u_in)) image_bytes]
             @ es
             @ [Unlink (path_str (input_path base_path u_in))]
             @ (if success then [Stat (path_str (output_path base_path u_out))] else [])
         \<and> set es \<subseteq>
             {Makedirs (dirname (path_str (output_path base_path u_out))),
              Stat (path_str (truediv base_path exe_name)),
              Spawn (realesrgan_cmd base_path (path_str (input_path base_path u_in))
                       (path_str (output_path base_path u_out)))
                    (path_str base_path)}
         \<and> (\<forall>fs'. os_unlink (files w3) (workdir w3) (path_str (input_path base_path u_in)) = Inr fs'
               \<longrightarrow> \<not> os_exists (files w') (workdir w') (path_str (input_path base_path u_in)))"
proof -
  let ?inp = "input_path base_path u_in"
  let ?outp = "output_path base_path u_out"
  let ?w4 = "snd (path_unlink env ?inp w3)"
  let ?w5 = "if success then snd (path_exists ?outp ?w4) else ?w4"
  from enhance_files_returns [OF assms(6-8)] obtain r where
    ef: "enhance_files env base_path u_in u_out image_bytes w = Some (Returned r ?w5)"
    by blast
  have h: "handle_enhance_request env base_path u_in u_out req w = Some (r, ?w5)"
    by (rule handle_reaches_files [OF assms(1-5) ef])
  from run_realesrgan_trace [OF assms(8)] obtain es where
    es: "trace w3 = trace w2 @ es"
    and sub: "set es \<subseteq>
             {Makedirs (dirname (path_str ?outp)),
              Stat (path_str (truediv base_path exe_name)),
              Spawn (realesrgan_cmd base_path (path_str ?inp) (path_str ?outp))
                    (path_str base_path)}"
    by blast
  have t2: "trace w2 = trace w @ [Mkdir (path_str (temp_dir base_path)),
      OpenWrite (path_str ?inp) image_bytes]"
    using path_mkdir_trace [OF assms(6)] write_file_trace [OF assms(7)] by simp
  have t5: "trace ?w5 = trace w @ [Mkdir (path_str (temp_dir base_path)),
      OpenWrite (path_str ?inp) image_bytes] @ es @ [Unlink (path_str ?inp)]
      @ (if success then [Stat (path_str ?outp)] else [])"
    using es t2 by (simp add: path_unlink_simps path_exists_simps)
  have gone: "\<not> os_exists (files ?w5) (workdir ?w5) (path_str ?inp)"
    if u: "os_unlink (files w3) (workdir w3) (path_str ?inp) = Inr fs'" for fs'
  proof -
    have "files ?w5 = fs'" and "workdir ?w5 = workdir w3"
      using u by (simp_all add: path_unlink_simps path_exists_simps)
    then show ?thesis using os_unlink_removes [OF u] by simp
  qed
  from h t5 sub gone show ?thesis by blast
qed

text \<open>
  The example: with the program that writes its output, the handler makes one write, to
  the input path, and the input file is gone at the end.
\<close>

theorem temp_file_written_once_then_unlinked_witness:
  "\<exists>r w'. handle_enhance_request example_env example_base 1 2 example_post example_world
             = Some (r, w')
         \<and> filter (\<lambda>e. \<exists>s b. e = OpenWrite s b) (trace w')
             = [OpenWrite ''/srv/app/temp/input_00000000000000000000000000000001.jpg''
                  [0x41, 0x42, 0x43]]
         \<and> os_exists (files w') (workdir w')
               ''/srv/app/temp/input_00000000000000000000000000000001.jpg'' = False"
proof -
  have name: "path_str (input_path example_base 1)
                = ''/srv/app/temp/input_00000000000000000000000000000001.jpg''"
    by code_simp
  have "case os_unlink (files example_w3) (workdir example_w3) (path_str (input_path example_base 1))
        of Inl c \<Rightarrow> False | Inr fs' \<Rightarrow> True"
    by code_simp
  then obtain fs' where
    u: "os_unlink (files example_w3) (workdir example_w3) (path_str (input_path example_base 1))
          = Inr fs'"
    by (auto split: sum.splits)
  from temp_file_written_once_then_unlinked [OF example_post_front example_mkdir example_write example_run]
  obtain r w' es where
    h: "handle_enhance_request example_env example_base 1 2 example_post example_world = Some (r, w')"
    and t: "trace w' = trace example_world
             @ [Mkdir (path_str (temp_dir example_base)),
                OpenWrite (path_str (input_path example_base 1)) [0x41, 0x42, 0x43]]
             @ es
             @ [Unlink (path_str (input_path example_base 1))]
             @ (if True then [Stat (path_str (output_path example_base 2))] else [])"
    and sub: "set es \<subseteq>
             {Makedirs (dirname (path_str (output_path example_base 2))),
              Stat (path_str (truediv example_base exe_name)),
              Spawn (realesrgan_cmd example_base (path_str (input_path example_base 1))
                       (path_str (output_path example_base 2)))
                    (path_str example_base)}"
    and gone: "\<forall>fs'. os_unlink (files example_w3) (workdir example_w3)
                      (path_str (input_path example_base 1)) = Inr fs'
               \<longrightarrow> \<not> os_exists (files w') (workdir w') (path_str (input_path example_base 1))"
    by blast
  have "filter (\<lambda>e. \<exists>s b. e = OpenWrite s b) es = []"
    using sub by (auto simp: filter_empty_conv)
  then have "filter (\<lambda>e. \<exists>s b. e = OpenWrite s b) (trace w')
      = [OpenWrite (path_str (input_path example_base 1)) [0x41, 0x42, 0x43]]"
    using t by (simp add: example_world_def)
  with h gone u show ?thesis unfolding name by blast
qed

text \<open>
  Claim C6 as stated fails where the deletion raises: with the program that leaves the
  input file locked, the handler answers 500 after one \<^verbatim>\<open>unlink\<close> of the input path, and
  the temp input file still exists when the request ends.
\<close>

theorem locked_temp_file_survives:
  "map_option
     (\<lambda>(r, w'). (status_of r,
                  os_exists (files w') (workdir w') (path_str (input_path example_base 1)),
                  filter (\<lambda>e. e = Unlink (path_str (input_path example_base 1))) (trace w')))
     (handle_enhance_request (example_env\<lparr>subprocess_run := locking_tool\<rparr>) example_base 1 2
        (post_enhance [(''Content-Length'', ''16'')] body_image_QUJD) example_world)
   = Some (500, True, [Unlink (path_str (input_path example_base 1))])"
  by code_simp

subsection \<open>C7: the Process Invoker\<close>

text \<open>
  Claim C7 as amended: the Process Invoker first calls \<^verbatim>\<open>os.makedirs\<close> on the
  directory of the output path, whether the executable is there or not. When that call
  succeeds and the executable is absent, it returns failure with the message of line 151
  after the calls \<^verbatim>\<open>makedirs\<close> and \<^verbatim>\<open>exists\<close> only: no process is spawned. When the
  executable is present and the program exits, it has run
  \<^verbatim>\<open>subprocess.run\<close> once, in the base directory, with the executable, \<^verbatim>\<open>-i\<close> and the
  input path, \<^verbatim>\<open>-o\<close> and the output path, and the constants \<^verbatim>\<open>-n realesrgan-x4plus\<close>,
  \<^verbatim>\<open>-t 256\<close>, \<^verbatim>\<open>-j 1:1:1\<close>.
\<close>

theorem run_realesrgan_makedirs_first:
  assumes "makedirs env (dirname outp) w = (None, w1)"
  shows "(\<not> os_exists (files w1) (workdir w1) (path_str (truediv base_path exe_name)) \<longrightarrow>
            run_realesrgan env base_path inp outp w =
              Some ((False, Some msg_exe_missing),
                    log (Stat (path_str (truediv base_path exe_name))) w1)
            \<and> trace (log (Stat (path_str (truediv base_path exe_name))) w1) =
                trace w @ [Makedirs (dirname outp), Stat (path_str (truediv base_path exe_name))])
       \<and> (os_exists (files w1) (workdir w1) (path_str (truediv base_path exe_name)) \<longrightarrow>
          subprocess_run env (realesrgan_cmd base_path inp outp) (path_str base_path) (files w1)
            \<noteq> NeverReturns \<longrightarrow>
            (\<exists>r w'. run_realesrgan env base_path inp outp w = Some (r, w')
               \<and> trace w' = trace w @
                    [Makedirs (dirname outp),
                     Stat (path_str (truediv base_path exe_name)),
                     Spawn [path_str (truediv base_path exe_name), ''-i'', inp, ''-o'', outp,
                            ''-n'', ''realesrgan-x4plus'', ''-t'', ''256'', ''-j'', ''1:1:1'']
                           (path_str base_path)]))"
proof (intro conjI impI)
  have t1: "trace w1 = trace w @ [Makedirs (dirname outp)]"
    using makedirs_trace [OF assms] by simp
  let ?exe = "path_str (truediv base_path exe_name)"
  {
    assume a: "\<not> os_exists (files w1) (workdir w1) ?exe"
    show "run_realesrgan env base_path inp outp w =
            Some ((False, Some msg_exe_missing), log (Stat ?exe) w1)"
      using assms a by (simp add: run_realesrgan_def path_exists_def)
    show "trace (log (Stat ?exe) w1) = trace w @ [Makedirs (dirname outp), Stat ?exe]"
      using t1 by (simp add: log_def)
  }
  {
    assume a: "os_exists (files w1) (workdir w1) ?exe"
      and b: "subprocess_run env (realesrgan_cmd base_path inp outp) (path_str base_path) (files w1)
            \<noteq> NeverReturns"
    let ?w3 = "py_print (''Running command: '' @ py_join '' '' (realesrgan_cmd base_path inp outp))
                 (log (Stat ?exe) w1)"
    have f: "files ?w3 = files w1" by (simp add: py_print_def log_def)
    have "subprocess_run env (realesrgan_cmd base_path inp outp) (path_str base_path) (files ?w3)
            \<noteq> NeverReturns"
      by (subst f) (rule b)
    then obtain r w4 where
      r: "run_subprocess env (realesrgan_cmd base_path inp outp) (path_str base_path) ?w3 = Some (r, w4)"
      using run_subprocess_returns by blast
    have t4: "trace w4 = trace w @ [Makedirs (dirname outp), Stat ?exe,
        Spawn (realesrgan_cmd base_path inp outp) (path_str base_path)]"
      using run_subprocess_trace [OF r] t1 by (simp add: py_print_def log_def)
    show "\<exists>r w'. run_realesrgan env base_path inp outp w = Some (r, w')
               \<and> trace w' = trace w @
                    [Makedirs (dirname outp), Stat ?exe,
                     Spawn [?exe, ''-i'', inp, ''-o'', outp,
                            ''-n'', ''realesrgan-x4plus'', ''-t'', ''256'', ''-j'', ''1:1:1'']
                           (path_str base_path)]"
      using assms a r t4
      by (cases r) (auto simp: run_realesrgan_def path_exists_def realesrgan_cmd_def py_print_def
          Let_def)
  }
qed

text \<open>
  The example: the installation with the executable.
\<close>

theorem run_realesrgan_makedirs_first_witness:
  "\<exists>r w'. run_realesrgan example_env example_base
             ''/srv/app/temp/input_1.jpg'' ''/srv/app/results/output_2.jpg'' example_world
             = Some (r, w')
         \<and> trace w' = trace example_world @
              [Makedirs (dirname ''/srv/app/results/output_2.jpg''),
               Stat (path_str (truediv example_base exe_name)),
               Spawn [path_str (truediv example_base exe_name),
                      ''-i'', ''/srv/app/temp/input_1.jpg'',
                      ''-o'', ''/srv/app/results/output_2.jpg'',
                      ''-n'', ''realesrgan-x4plus'', ''-t'', ''256'', ''-j'', ''1:1:1'']
                     (path_str example_base)]"
proof -
  let ?w1 = "snd (makedirs example_env (dirname ''/srv/app/results/output_2.jpg'') example_world)"
  have m: "makedirs example_env (dirname ''/srv/app/results/output_2.jpg'') example_world
             = (None, ?w1)"
    by (rule pair_with_snd) code_simp
  have p: "os_exists (files ?w1) (workdir ?w1) (path_str (truediv example_base exe_name))"
    by code_simp
  have "case subprocess_run example_env
               (realesrgan_cmd example_base ''/srv/app/temp/input_1.jpg''
                  ''/srv/app/results/output_2.jpg'')
               (path_str example_base) (files ?w1)
        of NeverReturns \<Rightarrow> False | RunRaises e fs' \<Rightarrow> True | Completed rc out err fs' \<Rightarrow> True"
    by code_simp
  then have n: "subprocess_run example_env
             (realesrgan_cmd example_base ''/srv/app/temp/input_1.jpg''
                ''/srv/app/results/output_2.jpg'')
             (path_str example_base) (files ?w1) \<noteq> NeverReturns"
    by (auto split: run_outcome.splits)
  from run_realesrgan_makedirs_first [OF m, of example_base "''/srv/app/temp/input_1.jpg''"] p n
  show ?thesis by blast
qed

text \<open>
  Claim C7 as stated fails in its second half: in the installation without the
  executable and without the results directory, the Process Invoker returns the message
  of line 151 without spawning a process, and the results directory exists afterwards:
  line 145 made it before line 150 looked for the executable.
\<close>

theorem results_dir_made_without_exe:
  "map_option (\<lambda>(r, w'). (r, trace w', os_isdir (files w') (workdir w') ''/srv/app/results''))
     (run_realesrgan example_env example_base
        ''/srv/app/temp/input_1.jpg'' ''/srv/app/results/output_2.jpg'' bare_world)
   = Some ((False, Some msg_exe_missing),
           [Makedirs ''/srv/app/results'', Stat ''/srv/app/realesrgan-ncnn-vulkan.exe''],
           True)
   \<and> \<not> os_isdir (files bare_world) (workdir bare_world) ''/srv/app/results''"
  by code_simp

subsection \<open>C8: the response after the invocation\<close>

text \<open>
  Claim C8 says that in every case but success with an output file the \<^verbatim>\<open>error\<close> field is
  the message of line 132 followed by the captured error detail. When the program exits
  with 0 and has written no output file, \<^verbatim>\<open>run_realesrgan\<close> has returned \<^verbatim>\<open>(True, None)\<close>
  and line 132 formats \<^verbatim>\<open>None\<close>: the field ends in the text \<^verbatim>\<open>None\<close>, whatever the
  program printed. Here the program exits with 0, has printed a line on its error stream
  and has written nothing. Line 174 shows the intent for a failing exit: the error
  stream, else the output stream, else a fixed text.
\<close>

theorem exit_zero_without_output_reports_None:
  "(case subprocess_run (example_env\<lparr>subprocess_run := silent_tool\<rparr>)
           (realesrgan_cmd example_base (path_str (input_path example_base 1))
              (path_str (output_path example_base 2)))
           (path_str example_base) (files example_w2)
    of Completed returncode out err fs' \<Rightarrow> Some (returncode, out, err)
     | RunRaises e fs' \<Rightarrow> None
     | NeverReturns \<Rightarrow> None) = Some (0, [], ''vkQueueSubmit failed'')
   \<and> map_option fst
       (handle_enhance_request (example_env\<lparr>subprocess_run := silent_tool\<rparr>) example_base 1 2
          example_post example_world)
     = Some (JsonResponse 500 (JObj [(''error'', JStr (msg_enhance_failed @ ''None''))]))"
  by code_simp

text \<open>
  The rest of the response holds as described. Let the request reach the invocation
  (its image decodes, the temp directory is made and the input file written) and let the
  invocation return the pair \<open>(success, error_msg)\<close>. When \<open>success\<close> holds and the
  output file exists after the deletion of the input file, the handler answers 200 with
  \<^verbatim>\<open>success: true\<close>, the URL \<^verbatim>\<open>/results/\<close> followed by the output file name, and the
  message of line 128. When \<open>success\<close> does not hold, \<open>error_msg\<close> is a string and the
  handler answers 500 with the message of line 132 followed by that string. In the
  remaining case it answers 500 with a text that starts with the message of line 132.
\<close>

theorem enhance_response_after_invocation:
  assumes "read_body env req = Inr post_data"
    and "parse_body env post_data = Inr data"
    and "dict_get data ''image'' = Inr image_data"
    and "truthy image_data"
    and "decode_image env image_data = Inr image_bytes"
    and "path_mkdir env (temp_dir base_path) w = (None, w1)"
    and "write_file env (path_str (input_path base_path u_in)) image_bytes w1 = (None, w2)"
    and "run_realesrgan env base_path (path_str (input_path base_path u_in))
           (path_str (output_path base_path u_out)) w2 = Some ((success, error_msg), w3)"
    and "w4 = snd (path_unlink env (input_path base_path u_in) w3)"
  shows "\<exists>r w'. handle_enhance_request env base_path u_in u_out req w = Some (r, w')
         \<and> (success \<and> os_exists (files w4) (workdir w4) (path_str (output_path base_path u_out))
              \<longrightarrow> r = JsonResponse 200
                     (JObj [(''success'', JBool True),
                            (''enhanced_image_url'', JStr (''/results/'' @ output_filename u_out)),
                            (''message'', JStr msg_success)]))
         \<and> (\<not> success \<longrightarrow>
               (\<exists>detail. error_msg = Some detail
                  \<and> r = JsonResponse 500 (JObj [(''error'', JStr (msg_enhance_failed @ detail))])))
         \<and> (success \<and> \<not> os_exists (files w4) (workdir w4) (path_str (output_path base_path u_out))
              \<longrightarrow> (\<exists>rest. r = JsonResponse 500
                                (JObj [(''error'', JStr (msg_enhance_failed @ rest))])))"
proof -
  from handle_reaches_files [OF assms(1-5) enhance_files_returns [OF assms(6-8)]] assms(9)
  have h: "handle_enhance_request env base_path u_in u_out req w =
           Some (if success \<and> os_exists (files w4) (workdir w4)
                                (path_str (output_path base_path u_out))
                 then JsonResponse 200
                        (JObj [(''success'', JBool True),
                               (''enhanced_image_url'', JStr (''/results/'' @ output_filename u_out)),
                               (''message'', JStr msg_success)])
                 else JsonResponse 500
                        (JObj [(''error'', JStr (msg_enhance_failed @ py_format error_msg))]),
                 if success
                 then snd (path_exists (output_path base_path u_out)
                          (snd (path_unlink env (input_path base_path u_in) w3)))
                 else snd (path_unlink env (input_path base_path u_in) w3))"
    by simp
  from run_realesrgan_failure_detail [OF assms(8)]
  have d: "\<not> success \<longrightarrow> (\<exists>detail. error_msg = Some detail)" by simp
  show ?thesis
  proof (cases success)
    case True
    with h show ?thesis by auto
  next
    case False
    with d obtain detail where "error_msg = Some detail" by blast
    with h False show ?thesis by auto
  qed
qed

text \<open>The example: the program that writes its output.\<close>

theorem enhance_response_after_invocation_witness:
  "map_option fst (handle_enhance_request example_env example_base 1 2 example_post example_world)
   = Some (JsonResponse 200
        (JObj [(''success'', JBool True),
               (''enhanced_image_url'',
                JStr ''/results/output_00000000000000000000000000000002.jpg''),
               (''message'', JStr msg_success)]))"
proof -
  have present: "os_exists (files (snd (path_unlink example_env (input_path example_base 1) example_w3)))
      (workdir (snd (path_unlink example_env (input_path example_base 1) example_w3)))
      (path_str (output_path example_base 2))"
    by code_simp
  have name: "output_filename 2 = ''output_00000000000000000000000000000002.jpg''"
    by code_simp
  from enhance_response_after_invocation
    [OF example_post_front example_mkdir example_write example_run refl] present
  obtain r w' where
    "handle_enhance_request example_env example_base 1 2 example_post example_world = Some (r, w')"
    and "r = JsonResponse 200
               (JObj [(''success'', JBool True),
                      (''enhanced_image_url'', JStr (''/results/'' @ output_filename 2)),
                      (''message'', JStr msg_success)])"
    by blast
  then show ?thesis by (simp add: name)
qed

subsection \<open>C9: the path of a result is not contained\<close>

text \<open>
  Claim C9: for a base path anchored at the root and a request path that starts with
  \<^verbatim>\<open>/results/\<close>, the path opened is the base path extended by the parts of the request
  path without its first character, \<^verbatim>\<open>..\<close> parts included, and the content of the file
  found there is served. So the request path \<^verbatim>\<open>/results/../web_server.py\<close> in the
  example installation is served with the script, whose location is not inside the
  results directory.
\<close>

theorem results_path_not_contained:
  "(path = urlparse_path env (req_path req) \<longrightarrow>
    startswith path ''/results/'' \<longrightarrow>
    os_read (files w) (workdir w) (path_str (PyPath True (bs @ path_parts (drop 1 path))))
      = Inr content \<longrightarrow>
      truediv (PyPath True bs) (drop 1 path) = PyPath True (bs @ path_parts (drop 1 path))
      \<and> fst (do_GET env (PyPath True bs) req w) =
          FileResponse
            (case guess_type env (path_str (PyPath True (bs @ path_parts (drop 1 path)))) of
               None \<Rightarrow> ''application/octet-stream''
             | Some content_type \<Rightarrow> content_type)
            content)
   \<and> (fst (do_GET example_env example_base (get_request ''/results/../web_server.py'')
              example_world)
         = FileResponse ''text/x-python'' [0x23, 0x21]
      \<and> path_str (truediv example_base (drop 1 ''/results/../web_server.py''))
         = ''/srv/app/results/../web_server.py''
      \<and> CHR ''.'' # ''.'' \<in> set (path_parts ''/results/../web_server.py'')
      \<and> locate (files example_world) (workdir example_world)
           (path_str (truediv example_base ''results'')) = Inr [''srv'', ''app'', ''results'']
      \<and> locate (files example_world) (workdir example_world)
           ''/srv/app/results/../web_server.py'' = Inr [''srv'', ''app'', ''web_server.py'']
      \<and> \<not> inside [''srv'', ''app'', ''results''] [''srv'', ''app'', ''web_server.py''])"
proof (intro conjI impI)
  assume p: "path = urlparse_path env (req_path req)"
    and s: "startswith path ''/results/''"
    and r: "os_read (files w) (workdir w) (path_str (PyPath True (bs @ path_parts (drop 1 path))))
      = Inr content"
  show j: "truediv (PyPath True bs) (drop 1 path) = PyPath True (bs @ path_parts (drop 1 path))"
    using startswith_results(3) [OF s] by simp
  have e: "os_exists (files w) (workdir w) (path_str (PyPath True (bs @ path_parts (drop 1 path))))"
    by (rule os_read_exists [OF r])
  have "do_GET env (PyPath True bs) req w =
          serve_file env (PyPath True bs) (path_str (PyPath True (bs @ path_parts (drop 1 path))))
            (log (Stat (path_str (PyPath True (bs @ path_parts (drop 1 path))))) w)"
    using startswith_results [OF s] s e p [symmetric] j
    by (simp add: do_GET_def Let_def path_exists_def del: truediv.simps path_str.simps)
  then show "fst (do_GET env (PyPath True bs) req w) =
          FileResponse
            (case guess_type env (path_str (PyPath True (bs @ path_parts (drop 1 path)))) of
               None \<Rightarrow> ''application/octet-stream''
             | Some content_type \<Rightarrow> content_type)
            content"
    using r isabs_path_str [of "bs @ path_parts (drop 1 path)"]
    by (simp add: serve_file_def read_file_def log_def Let_def del: path_str.simps)
qed code_simp+

text \<open>
  The example: the earlier result \<^verbatim>\<open>/results/old.jpg\<close>.
\<close>

theorem results_path_not_contained_witness:
  "fst (do_GET example_env example_base (get_request ''/results/old.jpg'') example_world)
     = FileResponse ''image/jpeg'' [0xFF, 0xD8]"
proof -
  have h1: "''/results/old.jpg'' = urlparse_path example_env (req_path (get_request ''/results/old.jpg''))"
    by code_simp
  have h2: "startswith ''/results/old.jpg'' ''/results/''" by code_simp
  have h3: "os_read (files example_world) (workdir example_world)
      (path_str (PyPath True ([''srv'', ''app''] @ path_parts (drop 1 ''/results/old.jpg''))))
      = Inr [0xFF, 0xD8]"
    by code_simp
  have g: "guess_type example_env
      (path_str (PyPath True ([''srv'', ''app''] @ path_parts (drop 1 ''/results/old.jpg''))))
      = Some ''image/jpeg''"
    by code_simp
  from results_path_not_contained [of "''/results/old.jpg''" example_env "get_request ''/results/old.jpg''"
      example_world "[''srv'', ''app'']" "[0xFF, 0xD8]"] h1 h2 h3
  have "fst (do_GET example_env (PyPath True [''srv'', ''app''])
               (get_request ''/results/old.jpg'') example_world) =
          FileResponse
            (case guess_type example_env
               (path_str (PyPath True ([''srv'', ''app''] @ path_parts (drop 1 ''/results/old.jpg'')))) of
               None \<Rightarrow> ''application/octet-stream''
             | Some content_type \<Rightarrow> content_type)
            [0xFF, 0xD8]"
    by blast
  then show ?thesis by (simp only: g option.case example_base_def)
qed

subsection \<open>C10: no Content-Length\<close>

text \<open>
  Claim C10: when the request has no \<^verbatim>\<open>Content-Length\<close> header, \<^verbatim>\<open>int(None)\<close> raises a
  \<^verbatim>\<open>TypeError\<close> at line 77, before the body is read, and the handler of line 137 answers
  500 with the message of line 139 followed by the text of the exception; it prints one
  line and makes no other change.
\<close>

theorem missing_content_length_is_500:
  assumes "header_get (req_headers req) ''Content-Length'' = None"
  shows "handle_enhance_request env base_path u_in u_out req w =
           Some (JsonResponse 500 (JObj [(''error'', JStr (msg_server_error @ py_str int_of_none))]),
                 py_print (''Error in enhance request: '' @ py_str int_of_none) w)
         \<and> exn_class_of int_of_none = TypeError"
  using assms
  by (simp add: handle_enhance_request_def enhance_try_def read_body_def
      send_json_response_def int_of_none_def)

text \<open>
  The example: a request without headers.
\<close>

theorem missing_content_length_is_500_witness:
  "header_get (req_headers (post_enhance [] body_empty_object)) ''Content-Length'' = None
   \<and> map_option (status_of \<circ> fst)
        (handle_enhance_request example_env example_base 1 2
           (post_enhance [] body_empty_object) example_world) = Some 500"
proof -
  have h: "header_get (req_headers (post_enhance [] body_empty_object)) ''Content-Length'' = None"
    by (simp add: post_enhance_def header_get_def)
  show ?thesis
    using h missing_content_length_is_500 [OF h, of example_env example_base 1 2 example_world] by simp
qed

end
